theory Spec2Isabelle
  imports Complex_Main "HOL-Library.Multiset"
begin

section \<open>Numeric values\<close>

text \<open>
  The program computes on IEEE doubles held in pandas and numpy containers. Finite
  doubles are idealised as reals (no rounding, no overflow, a single zero); the special
  values \<open>nan\<close>, \<open>inf\<close> and \<open>-inf\<close> are kept, since the code tests for \<open>nan\<close> and
  numpy's array division by zero produces them instead of raising.
\<close>

datatype fnum = NaN | NInf | Fin real | PInf

definition isnan :: "fnum \<Rightarrow> bool" where
  "isnan v = (v = NaN)"

fun fneg :: "fnum \<Rightarrow> fnum" where
  "fneg NaN = NaN"
| "fneg NInf = PInf"
| "fneg PInf = NInf"
| "fneg (Fin a) = Fin (- a)"

fun fadd :: "fnum \<Rightarrow> fnum \<Rightarrow> fnum" where
  "fadd NaN _ = NaN"
| "fadd _ NaN = NaN"
| "fadd PInf NInf = NaN"
| "fadd NInf PInf = NaN"
| "fadd PInf _ = PInf"
| "fadd _ PInf = PInf"
| "fadd NInf _ = NInf"
| "fadd _ NInf = NInf"
| "fadd (Fin a) (Fin b) = Fin (a + b)"

definition fsub :: "fnum \<Rightarrow> fnum \<Rightarrow> fnum" where
  "fsub a b = fadd a (fneg b)"

text \<open>The sign of a value: \<open>1\<close>, \<open>-1\<close>, or \<open>0\<close> for zero; only used on non-\<open>nan\<close> values.\<close>

fun fsign :: "fnum \<Rightarrow> int" where
  "fsign NaN = 0"
| "fsign NInf = - 1"
| "fsign PInf = 1"
| "fsign (Fin a) = (if a < 0 then - 1 else if a = 0 then 0 else 1)"

definition inf_of_sign :: "int \<Rightarrow> fnum" where
  "inf_of_sign s = (if s = 0 then NaN else if s < 0 then NInf else PInf)"

fun fmul :: "fnum \<Rightarrow> fnum \<Rightarrow> fnum" where
  "fmul NaN _ = NaN"
| "fmul _ NaN = NaN"
| "fmul (Fin a) (Fin b) = Fin (a * b)"
| "fmul a b = inf_of_sign (fsign a * fsign b)"

text \<open>
  numpy's true division on float arrays: a finite non-zero value over zero is an
  infinity, zero over zero and infinity over infinity are \<open>nan\<close>; nothing is raised.
\<close>

fun fdiv :: "fnum \<Rightarrow> fnum \<Rightarrow> fnum" where
  "fdiv NaN _ = NaN"
| "fdiv _ NaN = NaN"
| "fdiv (Fin a) (Fin b) = (if b = 0 then inf_of_sign (fsign (Fin a)) else Fin (a / b))"
| "fdiv (Fin a) _ = Fin 0"
| "fdiv a (Fin b) = inf_of_sign (fsign a * (if b < 0 then - 1 else 1))"
| "fdiv _ _ = NaN"

text \<open>\<open>np.maximum\<close>: element-wise maximum that propagates \<open>nan\<close>.\<close>

fun fmaximum :: "fnum \<Rightarrow> fnum \<Rightarrow> fnum" where
  "fmaximum NaN _ = NaN"
| "fmaximum _ NaN = NaN"
| "fmaximum PInf _ = PInf"
| "fmaximum _ PInf = PInf"
| "fmaximum NInf b = b"
| "fmaximum a NInf = a"
| "fmaximum (Fin a) (Fin b) = Fin (max a b)"

section \<open>statistics.py: robust statistics of one sample series\<close>

text \<open>
  A pandas series of measurements is a list whose missing entries (\<open>nan\<close>) are \<open>None\<close>.
  \<open>dropna\<close> keeps the present values in order.
\<close>

definition dropna :: "real option list \<Rightarrow> real list" where
  "dropna series = List.map_filter (\<lambda>v. v) series"

text \<open>\<open>np.median\<close>: the middle of the sorted values, the mean of the two middle ones for
  an even count, and \<open>nan\<close> for an empty array.\<close>

definition np_median :: "real list \<Rightarrow> fnum" where
  "np_median xs =
     (let s = sort xs; n = length s in
      if n = 0 then NaN
      else if n mod 2 = 1 then Fin (s ! (n div 2))
      else Fin ((s ! (n div 2 - 1) + s ! (n div 2)) / 2))"

definition mean :: "real list \<Rightarrow> real" where
  "mean xs = sum_list xs / real (length xs)"

text \<open>\<open>np.std\<close> with its default \<open>ddof = 0\<close>: the population standard deviation, the root
  of the mean squared deviation from the mean; \<open>nan\<close> for an empty array.\<close>

definition np_std :: "real list \<Rightarrow> fnum" where
  "np_std xs =
     (if xs = [] then NaN
      else Fin (sqrt (mean (map (\<lambda>x. (x - mean xs)\<^sup>2) xs))))"

text \<open>\<open>np.nanpercentile(s, q, interpolation='linear')\<close> on a sorted, non-empty array
  without \<open>nan\<close>: the value at the fractional position \<open>q / 100 * (n - 1)\<close>, interpolated
  linearly between its two neighbours.\<close>

definition nanpercentile :: "real list \<Rightarrow> real \<Rightarrow> real" where
  "nanpercentile s q =
     (let idx = q / 100 * real (length s - 1);
          lo = nat \<lfloor>idx\<rfloor>;
          hi = min (lo + 1) (length s - 1);
          frac = idx - real lo
      in s ! lo + (s ! hi - s ! lo) * frac)"

record stat =
  ssize :: fnum
  med :: fnum
  err :: fnum

text \<open>The mask of line 32 of \<open>stats\<close>, as written:
  \<open>(Q1 - 1.5 * IQR < no_nan) | (no_nan > Q3 + 1.5 * IQR)\<close>.\<close>

definition o_rem_mask :: "real \<Rightarrow> real \<Rightarrow> real \<Rightarrow> bool" where
  "o_rem_mask Q1 Q3 x = (let IQR = Q3 - Q1 in Q1 - 1.5 * IQR < x \<or> x > Q3 + 1.5 * IQR)"

definition stats :: "real option list \<Rightarrow> stat" where
  "stats series =
     (let no_nan = dropna series; size = length no_nan in
      if size = 0 then \<lparr>ssize = Fin (real size), med = NaN, err = Fin 0\<rparr>
      else if size = 1 then \<lparr>ssize = Fin (real size), med = Fin (hd no_nan), err = Fin 0\<rparr>
      else if 1 < size \<and> size \<le> 4 then
        \<lparr>ssize = Fin (real size), med = np_median no_nan, err = np_std no_nan\<rparr>
      else
        (let Q3 = nanpercentile (sort no_nan) 75;
             Q1 = nanpercentile (sort no_nan) 25;
             o_rem = filter (o_rem_mask Q1 Q3) no_nan
         in \<lparr>ssize = Fin (real size), med = np_median o_rem, err = np_std o_rem\<rparr>))"

text \<open>
  What the specification asks of the branch for more than four samples: the survivors
  are the samples inside the closed interval \<open>[Q1 - 1.5 IQR, Q3 + 1.5 IQR]\<close>.
\<close>

definition spec_survivors :: "real list \<Rightarrow> real list" where
  "spec_survivors no_nan =
     (let Q3 = nanpercentile (sort no_nan) 75;
          Q1 = nanpercentile (sort no_nan) 25;
          IQR = Q3 - Q1
      in filter (\<lambda>x. Q1 - 1.5 * IQR \<le> x \<and> x \<le> Q3 + 1.5 * IQR) no_nan)"


section \<open>Errors\<close>

text \<open>The Python exceptions the modelled code can raise; a computation is a value of
  \<open>py_error + 'a\<close>, with \<open>Inl\<close> the exception.\<close>

datatype py_error = TypeError | KeyError | IndexError | ValueError | AttributeError

definition ebind :: "py_error + 'a \<Rightarrow> ('a \<Rightarrow> py_error + 'b) \<Rightarrow> py_error + 'b" where
  "ebind m f = (case m of Inl e \<Rightarrow> Inl e | Inr v \<Rightarrow> f v)"

text \<open>Indexing a Python sequence or numpy array with a non-negative integer.\<close>

definition item :: "'a list \<Rightarrow> nat \<Rightarrow> py_error + 'a" where
  "item xs i = (if i < length xs then Inr (xs ! i) else Inl IndexError)"

text \<open>The last element, \<open>xs[-1]\<close>.\<close>

definition last_item :: "'a list \<Rightarrow> py_error + 'a" where
  "last_item xs = (if xs = [] then Inl IndexError else Inr (last xs))"

section \<open>Column names\<close>

text \<open>
  The statistics table names its pressure columns by \<open>'{0:.1f}_x'.format(p)\<close>. The
  format rounds to one decimal, ties to even, and prints a sign for a negative number.
\<close>

definition digit_char :: "nat \<Rightarrow> char" where
  "digit_char d = ''0123456789'' ! (d mod 10)"

function str_nat :: "nat \<Rightarrow> string" where
  "str_nat n = (if n < 10 then [digit_char n] else str_nat (n div 10) @ [digit_char n])"
  by pat_completeness auto
termination
  by (relation "measure (\<lambda>n. n)") auto

declare str_nat.simps [simp del]

definition round_half_even :: "real \<Rightarrow> nat" where
  "round_half_even y =
     (let f = \<lfloor>y\<rfloor>; d = y - of_int f in
      nat (if d < 1 / 2 then f else if 1 / 2 < d then f + 1
           else if even f then f else f + 1))"

definition format_1f :: "real \<Rightarrow> string" where
  "format_1f p =
     (let k = round_half_even (\<bar>p\<bar> * 10) in
      (if p < 0 then ''-'' else '''') @ str_nat (k div 10) @ ''.'' @ str_nat (k mod 10))"

definition col_x :: "real \<Rightarrow> string" where
  "col_x p = format_1f p @ ''_x''"

definition col_y :: "real \<Rightarrow> string" where
  "col_y p = format_1f p @ ''_y''"

section \<open>The raw dataset and the per-material statistics table\<close>

text \<open>
  A row of the raw dataset: material, adsorbate, temperature, isotherm type, and the
  numeric measurement columns (Henry constant, loading per pressure bucket), a missing
  cell being \<open>None\<close>. The dataset lists the names of its numeric columns.
\<close>

record row =
  mat :: string
  ads :: string
  t :: real
  type_r :: string
  vals :: "string \<rightharpoonup> real"

record dataset =
  num_columns :: "string list"
  rows :: "row list"

text \<open>
  A pandas frame indexed by material. The numeric columns are keyed by a pair
  (column, statistic) and kept in order; every column has one value per index entry.
  \<open>seq_columns\<close> and \<open>ref_columns\<close> are the columns whose cells hold a sequence of
  numbers or a list of isotherm references, which \<open>populate_isos\<close> reads.
\<close>

record table =
  index :: "string list"
  columns :: "((string \<times> string) \<times> fnum list) list"
  seq_columns :: "((string \<times> string) \<times> fnum list list) list"
  ref_columns :: "((string \<times> string) \<times> string list list) list"

definition wf_table :: "table \<Rightarrow> bool" where
  "wf_table d = list_all (\<lambda>kv. length (snd kv) = length (index d)) (columns d)"

text \<open>\<open>d[key].values\<close>: the column as an array.\<close>

definition col_values :: "table \<Rightarrow> string \<times> string \<Rightarrow> py_error + fnum list" where
  "col_values d key = (case map_of (columns d) key of None \<Rightarrow> Inl KeyError | Some v \<Rightarrow> Inr v)"

text \<open>The position of a label in an index.\<close>

fun row_of :: "string list \<Rightarrow> string \<Rightarrow> nat option" where
  "row_of [] m = None"
| "row_of (x # xs) m = (if x = m then Some 0 else map_option Suc (row_of xs m))"

text \<open>\<open>d.loc[mat, key]\<close> for a full column key.\<close>

definition loc :: "table \<Rightarrow> string \<Rightarrow> string \<times> string \<Rightarrow> py_error + fnum" where
  "loc d m key =
     (case row_of (index d) m of
        None \<Rightarrow> Inl KeyError
      | Some i \<Rightarrow> ebind (col_values d key) (\<lambda>c. item c i))"

text \<open>\<open>d.loc[mat, name]\<close> for a first-level column name: the row's cells under that
  name, in column order.\<close>

definition loc_group :: "table \<Rightarrow> string \<Rightarrow> string \<Rightarrow> py_error + fnum list" where
  "loc_group d m name =
     (case row_of (index d) m of
        None \<Rightarrow> Inl KeyError
      | Some i \<Rightarrow>
          (let cs = filter (\<lambda>kv. fst (fst kv) = name) (columns d) in
           if cs = [] then Inl KeyError
           else if list_all (\<lambda>kv. i < length (snd kv)) cs
             then Inr (map (\<lambda>kv. snd kv ! i) cs) else Inl IndexError))"

definition loc_seq :: "table \<Rightarrow> string \<Rightarrow> string \<times> string \<Rightarrow> py_error + fnum list" where
  "loc_seq d m key =
     (case row_of (index d) m of
        None \<Rightarrow> Inl KeyError
      | Some i \<Rightarrow>
          (case map_of (seq_columns d) key of
             None \<Rightarrow> Inl KeyError
           | Some c \<Rightarrow> item c i))"

definition loc_refs :: "table \<Rightarrow> string \<Rightarrow> string \<times> string \<Rightarrow> py_error + string list" where
  "loc_refs d m key =
     (case row_of (index d) m of
        None \<Rightarrow> Inl KeyError
      | Some i \<Rightarrow>
          (case map_of (ref_columns d) key of
             None \<Rightarrow> Inl KeyError
           | Some c \<Rightarrow> item c i))"

section \<open>statistics.py: selection of the two-adsorbate table\<close>

text \<open>\<open>Series.unique()\<close>: the distinct values in order of first appearance.\<close>

definition unique :: "'a list \<Rightarrow> 'a list" where
  "unique xs = rev (remdups (rev xs))"

definition stat_field :: "string \<Rightarrow> stat \<Rightarrow> fnum" where
  "stat_field s st = (if s = ''size'' then ssize st else if s = ''med'' then med st else err st)"

text \<open>
  \<open>calc_kpi\<close>: for each group (one per material, in order of first appearance) and each
  numeric column, \<open>stats\<close> of the group's series; unstacked into one column per
  (column, statistic) pair.
\<close>

definition calc_kpi :: "string list \<Rightarrow> row list \<Rightarrow> table" where
  "calc_kpi cs rs =
     (let mats = unique (map mat rs) in
      \<lparr>index = mats,
       columns = concat (map (\<lambda>c. map (\<lambda>s.
           ((c, s), map (\<lambda>m. stat_field s
               (stats (map (\<lambda>r. vals r c) (filter (\<lambda>r. mat r = m) rs)))) mats))
           [''size'', ''med'', ''err'']) cs),
       seq_columns = [], ref_columns = []\<rparr>)"

text \<open>
  \<open>pd.merge(left, right, on='mat', suffixes=('_x', '_y'))\<close>, an inner join on the
  material in the order of the left keys; a column name that both sides have takes the
  side's suffix.
\<close>

definition suffixed ::
    "string \<Rightarrow> (string \<times> string) list \<Rightarrow> (string \<times> string) \<Rightarrow> (string \<times> string)" where
  "suffixed sfx others key =
     (if fst key \<in> set (map fst others) then (fst key @ sfx, snd key) else key)"

definition take_rows :: "string list \<Rightarrow> string list \<Rightarrow> fnum list \<Rightarrow> fnum list" where
  "take_rows idx ms c = map (\<lambda>m. c ! the (row_of idx m)) ms"

definition merge_mat :: "table \<Rightarrow> table \<Rightarrow> table" where
  "merge_mat l r =
     (let ms = filter (\<lambda>m. m \<in> set (index r)) (index l) in
      \<lparr>index = ms,
       columns =
         map (\<lambda>kv. (suffixed ''_x'' (map fst (columns r)) (fst kv),
                     take_rows (index l) ms (snd kv))) (columns l) @
         map (\<lambda>kv. (suffixed ''_y'' (map fst (columns l)) (fst kv),
                     take_rows (index r) ms (snd kv))) (columns r),
       seq_columns = [], ref_columns = []\<rparr>)"

definition between :: "real \<Rightarrow> real \<Rightarrow> real \<Rightarrow> bool" where
  "between x lo hi = (lo \<le> x \<and> x \<le> hi)"

text \<open>Python truthiness of the isotherm-type filter: \<open>None\<close> and the empty string are
  false.\<close>

definition truthy :: "string option \<Rightarrow> bool" where
  "truthy s = (case s of None \<Rightarrow> False | Some v \<Rightarrow> v \<noteq> [])"

definition select_data ::
    "dataset \<Rightarrow> string option \<Rightarrow> real \<Rightarrow> real \<Rightarrow> string \<Rightarrow> string \<Rightarrow> table option" where
  "select_data d i_type t_abs t_tol g1 g2 =
     (let dft =
            (if truthy i_type
             then filter (\<lambda>r. Some (type_r r) = i_type
                      \<and> between (t r) (t_abs - t_tol) (t_abs + t_tol)) (rows d)
             else filter (\<lambda>r. between (t r) (t_abs - t_tol) (t_abs + t_tol)) (rows d));
          g1_filt = filter (\<lambda>r. ads r = g1) dft;
          g2_filt = filter (\<lambda>r. ads r = g2) dft;
          common = filter (\<lambda>m. m \<in> set (unique (map mat g2_filt))) (unique (map mat g1_filt))
      in if length common = 0 then None
         else Some (merge_mat
           (calc_kpi (num_columns d) (filter (\<lambda>r. mat r \<in> set common) g1_filt))
           (calc_kpi (num_columns d) (filter (\<lambda>r. mat r \<in> set common) g2_filt))))"

section \<open>datamodel.py: the data model and its display sources\<close>

text \<open>
  A bokeh \<open>ColumnDataSource\<close>: the \<open>labels\<close> column and the numeric columns by name.
\<close>

record source =
  labels :: "string list"
  cols :: "string \<rightharpoonup> fnum list"

text \<open>One streamed row of an isotherm source: label, pressures \<open>x\<close>, loadings \<open>y\<close>,
  citation, temperature and colour. The source is the list of its rows.\<close>

record curve =
  c_label :: string
  c_x :: "fnum list"
  c_y :: "fnum list"
  c_doi :: string
  c_temp :: string
  c_color :: string

text \<open>What \<open>load_isotherm\<close> returns and \<open>populate_isos\<close> builds: the list
  \<open>[label, loading, pressure, doi, temp]\<close>.\<close>

record iso =
  iso_label :: string
  iso_loading :: "fnum list"
  iso_pressure :: "fnum list"
  iso_doi :: string
  iso_temp :: string

text \<open>The part of the dashboard the model writes: the axis ends of the two isotherm
  graphs, and the dashboard's colour cycle (the palette and the position in it).\<close>

record dash =
  p_g1iso_x_end :: fnum
  p_g1iso_y_end :: fnum
  p_g2iso_x_end :: fnum
  p_g2iso_y_end :: fnum
  c_cyc :: "string list \<times> nat"

text \<open>
  The attributes that \<open>DataModel.__init__\<close> and \<open>callback_link_sep\<close> assign.
  \<open>dfs\<close> is \<open>None\<close> when \<open>select_data\<close> returned \<open>None\<close>; \<open>selected\<close> is
  \<open>data.selected.indices\<close>.

  Some arrays of the snapshot \<open>data\<close> are not copies: \<open>gen_data\<close> returns
  \<open>self._dfs[key].values\<close>, the frame's own column, for the Henry and the uptake
  columns. \<open>data_views\<close> records, for each such snapshot column, the column of the
  cache whose memory it is. It is set when the snapshot is assigned and stays until the
  next one is.
\<close>

record datamodel =
  df :: dataset
  dfs :: "table option"
  g1 :: string
  g2 :: string
  t_abs :: real
  t_tol :: real
  iso_type :: "string option"
  lp :: real
  p1 :: real
  p2 :: real
  data :: source
  data_views :: "(string \<times> string \<times> string) list"
  selected :: "nat list"
  errors :: source
  g1_iso_sel :: "curve list"
  g2_iso_sel :: "curve list"
  s_dash :: dash

text \<open>\<open>self._dfs.loc[mat, key]\<close>: an \<open>AttributeError\<close> when \<open>self._dfs\<close> is \<open>None\<close>.\<close>

definition dfs_loc :: "datamodel \<Rightarrow> string \<Rightarrow> string \<times> string \<Rightarrow> py_error + fnum" where
  "dfs_loc self m key = (case dfs self of None \<Rightarrow> Inl AttributeError | Some d \<Rightarrow> loc d m key)"

text \<open>\<open>self._dfs.loc[mat, name][2]\<close>: the third cell under a first-level name.\<close>

definition dfs_loc_third :: "datamodel \<Rightarrow> string \<Rightarrow> string \<Rightarrow> py_error + fnum" where
  "dfs_loc_third self m name =
     (case dfs self of
        None \<Rightarrow> Inl AttributeError
      | Some d \<Rightarrow> ebind (loc_group d m name) (\<lambda>cells. item cells 2))"

text \<open>\<open>self.data.data[name]\<close> and \<open>self.data.data[name][index]\<close>.\<close>

definition data_col :: "datamodel \<Rightarrow> string \<Rightarrow> py_error + fnum list" where
  "data_col self name = (case cols (data self) name of None \<Rightarrow> Inl KeyError | Some c \<Rightarrow> Inr c)"

definition data_at :: "datamodel \<Rightarrow> string \<Rightarrow> nat \<Rightarrow> py_error + fnum" where
  "data_at self name i = ebind (data_col self name) (\<lambda>c. item c i)"

subsection \<open>Full recompute and the two patches of the KPI snapshot\<close>

text \<open>Each of the three functions starts by subscripting \<open>self._dfs\<close>, a \<open>TypeError\<close>
  when it is \<open>None\<close>.\<close>

definition gen_data :: "datamodel \<Rightarrow> py_error + source" where
  "gen_data self =
   (case dfs self of None \<Rightarrow> Inl TypeError | Some d \<Rightarrow>
     ebind (col_values d (''kH_x'', ''size'')) (\<lambda>K_nx.
     ebind (col_values d (''kH_x'', ''med'')) (\<lambda>K_x.
     ebind (col_values d (''kH_y'', ''size'')) (\<lambda>K_ny.
     ebind (col_values d (''kH_y'', ''med'')) (\<lambda>K_y.
     let K_n = map2 fadd K_nx K_ny in
     ebind (col_values d (col_x (lp self), ''size'')) (\<lambda>L_nx.
     ebind (col_values d (col_x (lp self), ''med'')) (\<lambda>L_x.
     ebind (col_values d (col_y (lp self), ''size'')) (\<lambda>L_ny.
     ebind (col_values d (col_y (lp self), ''med'')) (\<lambda>L_y.
     let L_n = map2 fadd L_nx L_ny in
     ebind (col_values d (col_x (p1 self), ''size'')) (\<lambda>W_nx1.
     ebind (col_values d (col_x (p2 self), ''size'')) (\<lambda>W_nx2.
     let W_nx = map2 fmaximum W_nx1 W_nx2 in
     ebind (col_values d (col_x (p2 self), ''med'')) (\<lambda>W_x2.
     ebind (col_values d (col_x (p1 self), ''med'')) (\<lambda>W_x1.
     let W_x = map2 fsub W_x2 W_x1 in
     ebind (col_values d (col_y (p1 self), ''size'')) (\<lambda>W_ny1.
     ebind (col_values d (col_y (p2 self), ''size'')) (\<lambda>W_ny2.
     let W_ny = map2 fmaximum W_ny1 W_ny2 in
     ebind (col_values d (col_y (p2 self), ''med'')) (\<lambda>W_y2.
     ebind (col_values d (col_y (p1 self), ''med'')) (\<lambda>W_y1.
     let W_y = map2 fsub W_y2 W_y1;
         W_n = map2 fadd W_nx W_ny;
         sel = map2 fdiv K_y K_x;
         psa_W = map2 fmul (map2 fdiv K_y W_x) sel
     in Inr \<lparr>labels = index d,
             cols = map_of
               [(''sel'', sel), (''psa_W'', psa_W),
                (''K_x'', K_x), (''K_y'', K_y),
                (''K_nx'', K_nx), (''K_ny'', K_ny), (''K_n'', K_n),
                (''L_x'', L_x), (''L_y'', L_y),
                (''L_nx'', L_nx), (''L_ny'', L_ny), (''L_n'', L_n),
                (''W_x'', W_x), (''W_y'', W_y),
                (''W_nx'', W_nx), (''W_ny'', W_ny), (''W_n'', W_n)]\<rparr>)))))))))))))))))"

text \<open>
  The columns of that dictionary that are \<open>.values\<close> of a cache column, with the column
  they share memory with. The sums, the maxima, the differences and the two ratios are
  new arrays.
\<close>

definition gen_data_views :: "datamodel \<Rightarrow> (string \<times> string \<times> string) list" where
  "gen_data_views self =
     [(''K_nx'', (''kH_x'', ''size'')), (''K_x'', (''kH_x'', ''med'')),
      (''K_ny'', (''kH_y'', ''size'')), (''K_y'', (''kH_y'', ''med'')),
      (''L_nx'', (col_x (lp self), ''size'')), (''L_x'', (col_x (lp self), ''med'')),
      (''L_ny'', (col_y (lp self), ''size'')), (''L_y'', (col_y (lp self), ''med''))]"

text \<open>A patch: for each named column the values that replace the whole column
  (\<open>[(slice(None), values)]\<close>).\<close>

type_synonym patch = "(string \<times> fnum list) list"

definition patch_data_l :: "datamodel \<Rightarrow> py_error + patch" where
  "patch_data_l self =
   (case dfs self of None \<Rightarrow> Inl TypeError | Some d \<Rightarrow>
     ebind (col_values d (col_x (lp self), ''size'')) (\<lambda>L_nx.
     ebind (col_values d (col_x (lp self), ''med'')) (\<lambda>L_x.
     ebind (col_values d (col_y (lp self), ''size'')) (\<lambda>L_ny.
     ebind (col_values d (col_y (lp self), ''med'')) (\<lambda>L_y.
     let L_n = map2 fadd L_nx L_ny in
     Inr [(''L_x'', L_x), (''L_y'', L_y),
          (''L_nx'', L_nx), (''L_ny'', L_ny), (''L_n'', L_n)])))))"

definition patch_data_w :: "datamodel \<Rightarrow> py_error + patch" where
  "patch_data_w self =
   (case dfs self of None \<Rightarrow> Inl TypeError | Some d \<Rightarrow>
     ebind (col_values d (col_x (p1 self), ''size'')) (\<lambda>W_nx1.
     ebind (col_values d (col_x (p2 self), ''size'')) (\<lambda>W_nx2.
     let W_nx = map2 fmaximum W_nx1 W_nx2 in
     ebind (col_values d (col_x (p2 self), ''med'')) (\<lambda>W_x2.
     ebind (col_values d (col_x (p1 self), ''med'')) (\<lambda>W_x1.
     let W_x = map2 fsub W_x2 W_x1 in
     ebind (col_values d (col_y (p1 self), ''size'')) (\<lambda>W_ny1.
     ebind (col_values d (col_y (p2 self), ''size'')) (\<lambda>W_ny2.
     let W_ny = map2 fmaximum W_ny1 W_ny2 in
     ebind (col_values d (col_y (p2 self), ''med'')) (\<lambda>W_y2.
     ebind (col_values d (col_y (p1 self), ''med'')) (\<lambda>W_y1.
     let W_y = map2 fsub W_y2 W_y1;
         W_n = map2 fadd W_nx W_ny in
     ebind (data_col self ''sel'') (\<lambda>sel.
     let psa_W = map2 fmul (map2 fdiv W_y W_x) sel in
     Inr [(''psa_W'', psa_W),
          (''W_x'', W_x), (''W_y'', W_y),
          (''W_nx'', W_nx), (''W_ny'', W_ny), (''W_n'', W_n)]))))))))))"

text \<open>
  \<open>ColumnDataSource.patch\<close> with whole-column slices: a \<open>ValueError\<close> for a column the
  source does not have, else \<open>column[:] = values\<close> for each entry. The snapshot's
  columns are numpy arrays, whose slice assignment keeps the array's length: the values
  must have that length or be a single value, which is repeated. The overlay's columns
  are Python lists, whose slice assignment takes any list.
\<close>

definition assign_array :: "fnum list \<Rightarrow> fnum list \<Rightarrow> py_error + fnum list" where
  "assign_array old v =
     (if length v = length old then Inr v
      else if length v = 1 then Inr (replicate (length old) (hd v))
      else Inl ValueError)"

definition assign_list :: "fnum list \<Rightarrow> fnum list \<Rightarrow> py_error + fnum list" where
  "assign_list old v = Inr v"

fun apply_entries ::
    "(fnum list \<Rightarrow> fnum list \<Rightarrow> py_error + fnum list) \<Rightarrow> source \<Rightarrow> patch \<Rightarrow> py_error + source" where
  "apply_entries assign s [] = Inr s"
| "apply_entries assign s ((k, v) # rest) =
     (case cols s k of
        None \<Rightarrow> Inl KeyError
      | Some old \<Rightarrow>
          ebind (assign old v) (\<lambda>new. apply_entries assign (s\<lparr>cols := (cols s)(k \<mapsto> new)\<rparr>) rest))"

definition cds_patch ::
    "(fnum list \<Rightarrow> fnum list \<Rightarrow> py_error + fnum list) \<Rightarrow> source \<Rightarrow> patch \<Rightarrow> py_error + source" where
  "cds_patch assign s p =
     (if list_all (\<lambda>kv. cols s (fst kv) \<noteq> None) p then apply_entries assign s p
      else Inl ValueError)"

text \<open>
  \<open>self.data.patch(p)\<close> on the snapshot. The slice assignment writes into the array
  the snapshot holds, so a patched column that is a view of a cache column changes that
  cache column too. The values of a patch are read from the cache before the first
  write, and no write of a patch changes a column another of its entries reads (the
  target is either the very column read or one of another pressure).
\<close>

definition set_column ::
    "string \<times> string \<Rightarrow> fnum list \<Rightarrow> ((string \<times> string) \<times> fnum list) list
      \<Rightarrow> ((string \<times> string) \<times> fnum list) list" where
  "set_column key v cs = map (\<lambda>kv. if fst kv = key then (key, v) else kv) cs"

fun write_views ::
    "(string \<times> string \<times> string) list \<Rightarrow> source \<Rightarrow> string list \<Rightarrow> table \<Rightarrow> table" where
  "write_views vs d [] tb = tb"
| "write_views vs d (k # ks) tb =
     write_views vs d ks
       (case map_of vs k of
          None \<Rightarrow> tb
        | Some key \<Rightarrow>
            (case cols d k of
               None \<Rightarrow> tb
             | Some v \<Rightarrow> tb\<lparr>columns := set_column key v (columns tb)\<rparr>))"

definition data_patch :: "datamodel \<Rightarrow> patch \<Rightarrow> py_error + datamodel" where
  "data_patch self p =
     ebind (cds_patch assign_array (data self) p) (\<lambda>d.
     Inr (self\<lparr>data := d,
               dfs := map_option (write_views (data_views self) d (map fst p)) (dfs self)\<rparr>))"

subsection \<open>The error overlay of the selected rows\<close>

text \<open>
  One metric family of one selected row: the values \<open>x\<close>, \<open>y\<close> read from the snapshot
  and the two error terms. When either value is \<open>nan\<close> all four become 0 and the cache
  is not read; else the error terms are read from the cache (\<open>ex\<close>, \<open>ey\<close> are those
  reads, which can raise).
\<close>

type_synonym terms = "fnum \<times> fnum \<times> fnum \<times> fnum"

definition family :: "fnum \<Rightarrow> fnum \<Rightarrow> py_error + fnum \<Rightarrow> py_error + fnum \<Rightarrow> py_error + terms" where
  "family x y ex ey =
     (if isnan x \<or> isnan y then Inr (Fin 0, Fin 0, Fin 0, Fin 0)
      else ebind ex (\<lambda>a. ebind ey (\<lambda>b. Inr (x, y, a, b))))"

definition eadd :: "py_error + fnum \<Rightarrow> py_error + fnum \<Rightarrow> py_error + fnum" where
  "eadd a b = ebind a (\<lambda>u. ebind b (\<lambda>v. Inr (fadd u v)))"

text \<open>The lists a family contributes for one row, as the \<open>extend\<close> calls build them.\<close>

definition pt_x :: "terms \<Rightarrow> fnum list" where
  "pt_x q = (case q of (x, y, ex, ey) \<Rightarrow> [x, x])"

definition pt_y :: "terms \<Rightarrow> fnum list" where
  "pt_y q = (case q of (x, y, ex, ey) \<Rightarrow> [y, y])"

definition seg_x0 :: "terms \<Rightarrow> fnum list" where
  "seg_x0 q = (case q of (x, y, ex, ey) \<Rightarrow> [fsub x ex, x])"

definition seg_y0 :: "terms \<Rightarrow> fnum list" where
  "seg_y0 q = (case q of (x, y, ex, ey) \<Rightarrow> [y, fsub y ey])"

definition seg_x1 :: "terms \<Rightarrow> fnum list" where
  "seg_x1 q = (case q of (x, y, ex, ey) \<Rightarrow> [fadd x ex, x])"

definition seg_y1 :: "terms \<Rightarrow> fnum list" where
  "seg_y1 q = (case q of (x, y, ex, ey) \<Rightarrow> [y, fadd y ey])"

text \<open>The body of a loop over the selected indices; the first exception ends it.\<close>

fun for_each :: "(nat \<Rightarrow> py_error + 'a) \<Rightarrow> nat list \<Rightarrow> py_error + 'a list" where
  "for_each f [] = Inr []"
| "for_each f (i # rest) = ebind (f i) (\<lambda>v. ebind (for_each f rest) (\<lambda>vs. Inr (v # vs)))"

record erow =
  e_mat :: string
  e_K :: terms
  e_L :: terms
  e_W :: terms

text \<open>What the loop body reads from the snapshot for the row \<open>index\<close>: the label and
  the six values.\<close>

definition row_vals ::
    "datamodel \<Rightarrow> nat \<Rightarrow> py_error + string \<times> fnum \<times> fnum \<times> fnum \<times> fnum \<times> fnum \<times> fnum" where
  "row_vals self i =
     ebind (item (labels (data self)) i) (\<lambda>m.
     ebind (data_at self ''K_x'' i) (\<lambda>K_x.
     ebind (data_at self ''K_y'' i) (\<lambda>K_y.
     ebind (data_at self ''L_x'' i) (\<lambda>L_x.
     ebind (data_at self ''L_y'' i) (\<lambda>L_y.
     ebind (data_at self ''W_x'' i) (\<lambda>W_x.
     ebind (data_at self ''W_y'' i) (\<lambda>W_y.
     Inr (m, K_x, K_y, L_x, L_y, W_x, W_y))))))))"

definition gen_error_row :: "datamodel \<Rightarrow> nat \<Rightarrow> py_error + erow" where
  "gen_error_row self i =
     ebind (row_vals self i) (\<lambda>(m, K_x, K_y, L_x, L_y, W_x, W_y).
     ebind (family K_x K_y
              (dfs_loc self m (''kH_x'', ''err''))
              (dfs_loc self m (''kH_y'', ''err''))) (\<lambda>K.
     ebind (family L_x L_y
              (dfs_loc self m (col_x (lp self), ''err''))
              (dfs_loc self m (col_y (lp self), ''err''))) (\<lambda>L.
     ebind (family W_x W_y
              (eadd (dfs_loc self m (col_x (p1 self), ''err''))
                    (dfs_loc self m (col_x (p2 self), ''err'')))
              (eadd (dfs_loc self m (col_y (p1 self), ''err''))
                    (dfs_loc self m (col_y (p2 self), ''err'')))) (\<lambda>W.
     Inr \<lparr>e_mat = m, e_K = K, e_L = L, e_W = W\<rparr>))))"

definition over :: "(erow \<Rightarrow> terms) \<Rightarrow> (terms \<Rightarrow> fnum list) \<Rightarrow> erow list \<Rightarrow> fnum list" where
  "over fam part rs = concat (map (\<lambda>r. part (fam r)) rs)"

text \<open>The dictionary \<open>gen_error\<close> returns for the rows it has looped over.\<close>

definition overlay_of :: "erow list \<Rightarrow> source" where
  "overlay_of rs =
          \<lparr>labels = concat (map (\<lambda>r. [e_mat r, e_mat r]) rs),
               cols = map_of
                 [(''K_x'', over e_K pt_x rs), (''K_y'', over e_K pt_y rs),
                  (''L_x'', over e_L pt_x rs), (''L_y'', over e_L pt_y rs),
                  (''W_x'', over e_W pt_x rs), (''W_y'', over e_W pt_y rs),
                  (''K_x0'', over e_K seg_x0 rs), (''K_y0'', over e_K seg_y0 rs),
                  (''K_x1'', over e_K seg_x1 rs), (''K_y1'', over e_K seg_y1 rs),
                  (''L_x0'', over e_L seg_x0 rs), (''L_y0'', over e_L seg_y0 rs),
                  (''L_x1'', over e_L seg_x1 rs), (''L_y1'', over e_L seg_y1 rs),
                  (''W_x0'', over e_W seg_x0 rs), (''W_y0'', over e_W seg_y0 rs),
                  (''W_x1'', over e_W seg_x1 rs), (''W_y1'', over e_W seg_y1 rs)]\<rparr>"

definition gen_error :: "datamodel \<Rightarrow> nat list option \<Rightarrow> py_error + source" where
  "gen_error self indices =
     (case indices of
        None \<Rightarrow>
          Inr \<lparr>labels = [],
               cols = map_of
                 [(''K_x'', []), (''K_y'', []), (''L_x'', []), (''L_y'', []),
                  (''W_x'', []), (''W_y'', []),
                  (''K_x0'', []), (''K_y0'', []), (''K_x1'', []), (''K_y1'', []),
                  (''L_x0'', []), (''L_y0'', []), (''L_x1'', []), (''L_y1'', []),
                  (''W_x0'', []), (''W_y0'', []), (''W_x1'', []), (''W_y1'', [])]\<rparr>
      | Some ixs \<Rightarrow>
          ebind (for_each (gen_error_row self) ixs) (\<lambda>rs. Inr (overlay_of rs)))"

text \<open>In the scoped patches the material is looked up only when the cache is read.\<close>

definition patch_error_l_row :: "datamodel \<Rightarrow> nat \<Rightarrow> py_error + terms" where
  "patch_error_l_row self i =
     ebind (data_at self ''L_x'' i) (\<lambda>L_x.
     ebind (data_at self ''L_y'' i) (\<lambda>L_y.
     if isnan L_x \<or> isnan L_y then Inr (Fin 0, Fin 0, Fin 0, Fin 0)
     else
       ebind (item (labels (data self)) i) (\<lambda>m.
       ebind (dfs_loc_third self m (col_x (lp self))) (\<lambda>L_ex.
       ebind (dfs_loc_third self m (col_y (lp self))) (\<lambda>L_ey.
       Inr (L_x, L_y, L_ex, L_ey))))))"

definition scoped_patch :: "string \<Rightarrow> terms list \<Rightarrow> patch" where
  "scoped_patch f qs =
     [(f @ ''_x'', concat (map pt_x qs)), (f @ ''_y'', concat (map pt_y qs)),
      (f @ ''_x0'', concat (map seg_x0 qs)), (f @ ''_y0'', concat (map seg_y0 qs)),
      (f @ ''_x1'', concat (map seg_x1 qs)), (f @ ''_y1'', concat (map seg_y1 qs))]"

definition patch_error_l :: "datamodel \<Rightarrow> nat list option \<Rightarrow> py_error + patch" where
  "patch_error_l self indices =
     (case indices of
        None \<Rightarrow> Inr (scoped_patch ''L'' [])
      | Some ixs \<Rightarrow>
          ebind (for_each (patch_error_l_row self) ixs) (\<lambda>qs. Inr (scoped_patch ''L'' qs)))"

definition patch_error_wc_row :: "datamodel \<Rightarrow> nat \<Rightarrow> py_error + terms" where
  "patch_error_wc_row self i =
     ebind (data_at self ''W_x'' i) (\<lambda>W_x.
     ebind (data_at self ''W_y'' i) (\<lambda>W_y.
     if isnan W_x \<or> isnan W_y then Inr (Fin 0, Fin 0, Fin 0, Fin 0)
     else
       ebind (item (labels (data self)) i) (\<lambda>m.
       ebind (eadd (dfs_loc_third self m (col_x (p1 self)))
                   (dfs_loc_third self m (col_x (p2 self)))) (\<lambda>W_ex.
       ebind (eadd (dfs_loc_third self m (col_y (p1 self)))
                   (dfs_loc_third self m (col_y (p2 self)))) (\<lambda>W_ey.
       Inr (W_x, W_y, W_ex, W_ey))))))"

definition patch_error_wc :: "datamodel \<Rightarrow> nat list option \<Rightarrow> py_error + patch" where
  "patch_error_wc self indices =
     (case indices of
        None \<Rightarrow> Inr (scoped_patch ''W'' [])
      | Some ixs \<Rightarrow>
          ebind (for_each (patch_error_wc_row self) ixs) (\<lambda>qs. Inr (scoped_patch ''W'' qs)))"

subsection \<open>Callbacks on the owner thread\<close>

text \<open>
  \<open>calculate\<close>: the full recompute. An exception of \<open>gen_data\<close> leaves the snapshot as
  it was (the new \<open>_dfs\<close> is already stored; the result then is only the exception).
\<close>

definition calculate :: "datamodel \<Rightarrow> py_error + datamodel" where
  "calculate self =
     (let self1 = self\<lparr>dfs := select_data (df self) (iso_type self)
                                 (t_abs self) (t_tol self) (g1 self) (g2 self)\<rparr>
      in ebind (gen_data self1) (\<lambda>d.
           Inr (self1\<lparr>data := d, data_views := gen_data_views self1\<rparr>)))"

definition uptake_callback :: "datamodel \<Rightarrow> real \<Rightarrow> py_error + datamodel" where
  "uptake_callback self new =
     (let self1 = self\<lparr>lp := new\<rparr> in
      ebind (patch_data_l self1) (\<lambda>p.
      ebind (data_patch self1 p) (\<lambda>self2.
      if selected self2 \<noteq> [] then
        ebind (patch_error_l self2 (Some (selected self2))) (\<lambda>pe.
        ebind (cds_patch assign_list (errors self2) pe) (\<lambda>e.
        Inr (self2\<lparr>errors := e\<rparr>)))
      else Inr self2)))"

definition wc_callback :: "datamodel \<Rightarrow> real \<times> real \<Rightarrow> py_error + datamodel" where
  "wc_callback self new =
     (let self1 = self\<lparr>p1 := fst new, p2 := snd new\<rparr> in
      ebind (patch_data_w self1) (\<lambda>p.
      ebind (data_patch self1 p) (\<lambda>self2.
      if selected self2 \<noteq> [] then
        ebind (patch_error_wc self2 (Some (selected self2))) (\<lambda>pe.
        ebind (cds_patch assign_list (errors self2) pe) (\<lambda>e.
        Inr (self2\<lparr>errors := e\<rparr>)))
      else Inr self2)))"

subsection \<open>Selection and the isotherm loader\<close>

text \<open>\<open>gen_iso_dict\<close>: an isotherm source without rows.\<close>

definition gen_iso_dict :: "curve list" where
  "gen_iso_dict = []"

text \<open>A loader thread that was started: the arguments \<open>[index, ads]\<close> of
  \<open>populate_isos\<close>.\<close>

type_synonym thread = "nat \<times> string"

definition reset_bottom :: "datamodel \<Rightarrow> datamodel" where
  "reset_bottom self =
     self\<lparr>g1_iso_sel := gen_iso_dict, g2_iso_sel := gen_iso_dict,
          s_dash := (s_dash self)\<lparr>p_g1iso_x_end := Fin 1, p_g1iso_y_end := Fin 1,
                                  p_g2iso_x_end := Fin 1, p_g2iso_y_end := Fin 1\<rparr>\<rparr>"

text \<open>
  \<open>selection_callback\<close>, called with the new indices after bokeh has stored them in
  \<open>data.selected.indices\<close>. It returns the new state and the threads it started.
\<close>

definition selection_callback :: "datamodel \<Rightarrow> nat list \<Rightarrow> py_error + datamodel \<times> thread list" where
  "selection_callback self0 new =
     (let self = self0\<lparr>selected := new\<rparr> in
      if length new = 0 then
        ebind (gen_error self None) (\<lambda>e. Inr (reset_bottom (self\<lparr>errors := e\<rparr>), []))
      else
        ebind (gen_error self (Some new)) (\<lambda>e.
        Inr (reset_bottom (self\<lparr>errors := e\<rparr>),
             if length new = 1 then [(new ! 0, ''g1''), (new ! 0, ''g2'')] else [])))"

datatype slot = G1 | G2

text \<open>A callback handed to \<open>doc.add_next_tick_callback\<close>: \<open>iso_update_g1\<close> or
  \<open>iso_update_g2\<close> with its \<open>iso\<close> and \<open>color\<close> arguments. It carries nothing else.\<close>

record callback =
  cb_slot :: slot
  cb_iso :: iso
  cb_color :: "string option"

definition dfs_loc_seq :: "datamodel \<Rightarrow> string \<Rightarrow> string \<times> string \<Rightarrow> py_error + fnum list" where
  "dfs_loc_seq self m key =
     (case dfs self of None \<Rightarrow> Inl AttributeError | Some d \<Rightarrow> loc_seq d m key)"

definition dfs_loc_refs :: "datamodel \<Rightarrow> string \<Rightarrow> string \<times> string \<Rightarrow> py_error + string list" where
  "dfs_loc_refs self m key =
     (case dfs self of None \<Rightarrow> Inl AttributeError | Some d \<Rightarrow> loc_refs d m key)"

text \<open>\<open>[p * 0.5 for p in range(len(loading) + 1)]\<close>\<close>

definition median_pressure :: "fnum list \<Rightarrow> fnum list" where
  "median_pressure loading = map (\<lambda>p. Fin (real p * 0.5)) [0..<length loading + 1]"

text \<open>
  One branch of \<open>populate_isos\<close> (the two differ in the adsorbate and the callback): the
  callbacks it enqueues, in order, and the exception that ended the thread, if any.
  \<open>load_isotherm\<close> is the external parser, \<open>None\<close> when it returns nothing.
\<close>

definition populate_slot ::
    "(string \<Rightarrow> iso option) \<Rightarrow> datamodel \<Rightarrow> string \<Rightarrow> slot \<Rightarrow> string
      \<Rightarrow> callback list \<times> py_error option" where
  "populate_slot load_isotherm self m sl g =
     (case dfs_loc_seq self m (g, ''mL'') of
        Inl e \<Rightarrow> ([], Some e)
      | Inr loading \<Rightarrow>
          (let pressure = median_pressure loading;
               first = \<lparr>cb_slot = sl,
                        cb_iso = \<lparr>iso_label = ''median'', iso_loading = loading,
                                  iso_pressure = pressure, iso_doi = '''', iso_temp = ''''\<rparr>,
                        cb_color = Some ''k''\<rparr>
           in case dfs_loc_refs self m (g, ''iso'') of
                Inl e \<Rightarrow> ([first], Some e)
              | Inr refs \<Rightarrow>
                  (first # List.map_filter
                     (\<lambda>r. map_option
                        (\<lambda>parsed. \<lparr>cb_slot = sl, cb_iso = parsed, cb_color = None\<rparr>)
                        (load_isotherm r)) refs,
                   None)))"

definition populate_isos ::
    "(string \<Rightarrow> iso option) \<Rightarrow> datamodel \<Rightarrow> nat \<Rightarrow> string \<Rightarrow> callback list \<times> py_error option" where
  "populate_isos load_isotherm self i a =
     (case item (labels (data self)) i of
        Inl e \<Rightarrow> ([], Some e)
      | Inr m \<Rightarrow>
          if a = ''g1'' then populate_slot load_isotherm self m G1 (g1 self)
          else if a = ''g2'' then populate_slot load_isotherm self m G2 (g2 self)
          else ([], None))"

text \<open>
  \<open>next(self.c_cyc)\<close> in a method of \<open>DataModel\<close>. The class never assigns an
  attribute \<open>c_cyc\<close>: the colour cycle is an attribute of the dashboard
  (\<open>SeparationDash.c_cyc\<close>, here \<open>c_cyc (s_dash self)\<close>), which the model holds as
  \<open>self.s_dash\<close>. The attribute lookup raises.
\<close>

definition next_c_cyc :: "datamodel \<Rightarrow> py_error + string \<times> datamodel" where
  "next_c_cyc self = Inl AttributeError"

text \<open>\<open>if not color: color = next(self.c_cyc)\<close>: \<open>None\<close> and the empty string are
  false.\<close>

definition pick_color :: "datamodel \<Rightarrow> string option \<Rightarrow> py_error + string \<times> datamodel" where
  "pick_color self color =
     (case color of
        None \<Rightarrow> next_c_cyc self
      | Some c \<Rightarrow> if c = [] then next_c_cyc self else Inr (c, self))"

text \<open>\<open>a > b\<close> on floats: false when either is \<open>nan\<close>.\<close>

fun fgt :: "fnum \<Rightarrow> fnum \<Rightarrow> bool" where
  "fgt NaN _ = False"
| "fgt _ NaN = False"
| "fgt PInf b = (b \<noteq> PInf)"
| "fgt _ PInf = False"
| "fgt NInf _ = False"
| "fgt (Fin a) NInf = True"
| "fgt (Fin a) (Fin b) = (b < a)"

definition as_curve :: "iso \<Rightarrow> string \<Rightarrow> curve" where
  "as_curve i c =
     \<lparr>c_label = iso_label i, c_x = iso_pressure i, c_y = iso_loading i,
      c_doi = iso_doi i, c_temp = iso_temp i, c_color = c\<rparr>"

text \<open>
  The two delivery callbacks. Each returns the state it leaves and the exception it
  ended with, if any: the row is streamed before the axis ends are read.
\<close>

definition iso_update_g1 :: "datamodel \<Rightarrow> iso \<Rightarrow> string option \<Rightarrow> datamodel \<times> py_error option" where
  "iso_update_g1 self0 i color =
     (case pick_color self0 color of
        Inl e \<Rightarrow> (self0, Some e)
      | Inr (c, self) \<Rightarrow>
          (let self1 = self\<lparr>g1_iso_sel := g1_iso_sel self @ [as_curve i c]\<rparr> in
           case last_item (iso_pressure i) of
             Inl e \<Rightarrow> (self1, Some e)
           | Inr px \<Rightarrow>
               (let self2 = (if fgt px (p_g1iso_x_end (s_dash self1))
                             then self1\<lparr>s_dash := (s_dash self1)\<lparr>p_g1iso_x_end := px\<rparr>\<rparr>
                             else self1) in
                case last_item (iso_loading i) of
                  Inl e \<Rightarrow> (self2, Some e)
                | Inr py \<Rightarrow>
                    (if fgt py (p_g1iso_y_end (s_dash self2))
                     then self2\<lparr>s_dash := (s_dash self2)\<lparr>p_g1iso_y_end := py\<rparr>\<rparr>
                     else self2, None))))"

definition iso_update_g2 :: "datamodel \<Rightarrow> iso \<Rightarrow> string option \<Rightarrow> datamodel \<times> py_error option" where
  "iso_update_g2 self0 i color =
     (case pick_color self0 color of
        Inl e \<Rightarrow> (self0, Some e)
      | Inr (c, self) \<Rightarrow>
          (let self1 = self\<lparr>g2_iso_sel := g2_iso_sel self @ [as_curve i c]\<rparr> in
           case last_item (iso_pressure i) of
             Inl e \<Rightarrow> (self1, Some e)
           | Inr px \<Rightarrow>
               (let self2 = (if fgt px (p_g2iso_x_end (s_dash self1))
                             then self1\<lparr>s_dash := (s_dash self1)\<lparr>p_g2iso_x_end := px\<rparr>\<rparr>
                             else self1) in
                case last_item (iso_loading i) of
                  Inl e \<Rightarrow> (self2, Some e)
                | Inr py \<Rightarrow>
                    (if fgt py (p_g2iso_y_end (s_dash self2))
                     then self2\<lparr>s_dash := (s_dash self2)\<lparr>p_g2iso_y_end := py\<rparr>\<rparr>
                     else self2, None))))"

definition deliver :: "datamodel \<Rightarrow> callback \<Rightarrow> datamodel \<times> py_error option" where
  "deliver self cb =
     (case cb_slot cb of
        G1 \<Rightarrow> iso_update_g1 self (cb_iso cb) (cb_color cb)
      | G2 \<Rightarrow> iso_update_g2 self (cb_iso cb) (cb_color cb))"

subsection \<open>The session as interleaved events\<close>

text \<open>
  The owner thread runs selection callbacks and, one per tick, the queued delivery
  callbacks; a started loader thread runs at some later moment and enqueues its
  callbacks. A session is a sequence of such events. A thread is run here in one piece;
  an exception in a callback or a thread is logged and the session goes on.
\<close>

record system =
  model :: datamodel
  threads :: "thread list"
  queue :: "callback list"

datatype event = Select "nat list" | Run nat | Tick

fun step :: "(string \<Rightarrow> iso option) \<Rightarrow> system \<Rightarrow> event \<Rightarrow> system" where
  "step load_isotherm s (Select new) =
     (case selection_callback (model s) new of
        Inl e \<Rightarrow> s\<lparr>model := (model s)\<lparr>selected := new\<rparr>\<rparr>
      | Inr (m, started) \<Rightarrow> s\<lparr>model := m, threads := threads s @ started\<rparr>)"
| "step load_isotherm s (Run n) =
     (if n < length (threads s) then
        s\<lparr>threads := take n (threads s) @ drop (Suc n) (threads s),
          queue := queue s @
            fst (populate_isos load_isotherm (model s) (fst (threads s ! n)) (snd (threads s ! n)))\<rparr>
      else s)"
| "step load_isotherm s Tick =
     (case queue s of
        [] \<Rightarrow> s
      | cb # rest \<Rightarrow> s\<lparr>model := fst (deliver (model s) cb), queue := rest\<rparr>)"

definition run :: "(string \<Rightarrow> iso option) \<Rightarrow> system \<Rightarrow> event list \<Rightarrow> system" where
  "run load_isotherm s evs = foldl (step load_isotherm) s evs"

section \<open>A small session used to instantiate the theorems\<close>

text \<open>
  A cached table of two materials with the Henry columns and the pressure buckets 0.5,
  1.0 and 5.0 for both adsorbates; material \<open>B\<close> has no loading of the first adsorbate at
  0.5. Its sequence and reference columns are those \<open>populate_isos\<close> reads.
\<close>

definition demo_columns :: "((string \<times> string) \<times> fnum list) list" where
  "demo_columns =
     [((''kH_x'', ''size''), [Fin 3, Fin 2]), ((''kH_x'', ''med''), [Fin 1, Fin 4]),
      ((''kH_x'', ''err''), [Fin (1 / 2), Fin 1]),
      ((''kH_y'', ''size''), [Fin 3, Fin 2]), ((''kH_y'', ''med''), [Fin 2, Fin 2]),
      ((''kH_y'', ''err''), [Fin (1 / 4), Fin (1 / 2)]),
      ((''0.5_x'', ''size''), [Fin 3, Fin 0]), ((''0.5_x'', ''med''), [Fin 1, NaN]),
      ((''0.5_x'', ''err''), [Fin (1 / 10), Fin 0]),
      ((''0.5_y'', ''size''), [Fin 2, Fin 1]), ((''0.5_y'', ''med''), [Fin 1, Fin 3]),
      ((''0.5_y'', ''err''), [Fin (1 / 5), Fin 0]),
      ((''1.0_x'', ''size''), [Fin 3, Fin 1]), ((''1.0_x'', ''med''), [Fin (3 / 2), Fin 2]),
      ((''1.0_x'', ''err''), [Fin (3 / 10), Fin 0]),
      ((''1.0_y'', ''size''), [Fin 2, Fin 1]), ((''1.0_y'', ''med''), [Fin (5 / 2), Fin 5]),
      ((''1.0_y'', ''err''), [Fin (2 / 5), Fin 0]),
      ((''5.0_x'', ''size''), [Fin 3, Fin 1]), ((''5.0_x'', ''med''), [Fin 2, Fin 6]),
      ((''5.0_x'', ''err''), [Fin (1 / 10), Fin 0]),
      ((''5.0_y'', ''size''), [Fin 2, Fin 1]), ((''5.0_y'', ''med''), [Fin 4, Fin 9]),
      ((''5.0_y'', ''err''), [Fin (1 / 5), Fin 0])]"

definition demo_table :: table where
  "demo_table =
     \<lparr>index = [''A'', ''B''],
      columns = demo_columns,
      seq_columns =
        [((''propane'', ''mL''), [[Fin 1, Fin 2], [Fin 7, Fin 8, Fin 9]]),
         ((''propene'', ''mL''), [[Fin 3], [Fin 4]])],
      ref_columns =
        [((''propane'', ''iso''), [[''a1'', ''bad''], [''b1'']]),
         ((''propene'', ''iso''), [[], []])]\<rparr>"

definition demo_dash :: dash where
  "demo_dash =
     \<lparr>p_g1iso_x_end = Fin 1, p_g1iso_y_end = Fin 1,
      p_g2iso_x_end = Fin 1, p_g2iso_y_end = Fin 1,
      c_cyc = ([''#440154'', ''#20908C'', ''#FDE724''], 0)\<rparr>"

definition demo_empty_source :: source where
  "demo_empty_source = \<lparr>labels = [], cols = Map.empty\<rparr>"

definition demo_base :: datamodel where
  "demo_base =
     \<lparr>df = \<lparr>num_columns = [], rows = []\<rparr>, dfs = Some demo_table,
      g1 = ''propane'', g2 = ''propene'', t_abs = 303, t_tol = 10, iso_type = None,
      lp = 1 / 2, p1 = 1 / 2, p2 = 5,
      data = demo_empty_source, data_views = [], selected = [],
      errors = demo_empty_source,
      g1_iso_sel = [], g2_iso_sel = [], s_dash = demo_dash\<rparr>"

text \<open>The snapshot \<open>gen_data\<close> computes from the table above at the pressures 0.5, 0.5
  and 5; the model below holds it with its views of that table.\<close>

definition demo_data :: source where
  "demo_data =
     \<lparr>labels = [''A'', ''B''],
      cols = map_of
        [(''sel'', [Fin 2, Fin (1 / 2)]), (''psa_W'', [Fin 4, NaN]),
         (''K_x'', [Fin 1, Fin 4]), (''K_y'', [Fin 2, Fin 2]),
         (''K_nx'', [Fin 3, Fin 2]), (''K_ny'', [Fin 3, Fin 2]), (''K_n'', [Fin 6, Fin 4]),
         (''L_x'', [Fin 1, NaN]), (''L_y'', [Fin 1, Fin 3]),
         (''L_nx'', [Fin 3, Fin 0]), (''L_ny'', [Fin 2, Fin 1]), (''L_n'', [Fin 5, Fin 1]),
         (''W_x'', [Fin 1, NaN]), (''W_y'', [Fin 3, Fin 6]),
         (''W_nx'', [Fin 3, Fin 1]), (''W_ny'', [Fin 2, Fin 1]), (''W_n'', [Fin 5, Fin 2])]\<rparr>"

definition demo_model :: datamodel where
  "demo_model = demo_base\<lparr>data := demo_data, data_views := gen_data_views demo_base\<rparr>"

text \<open>A raw dataset in which no material has rows for both adsorbates.\<close>

definition demo_disjoint :: dataset where
  "demo_disjoint =
     \<lparr>num_columns = [''kH'', ''0.5''],
      rows =
        [\<lparr>mat = ''A'', ads = ''propane'', t = 300, type_r = ''exp'',
          vals = [''kH'' \<mapsto> 1, ''0.5'' \<mapsto> 2]\<rparr>,
         \<lparr>mat = ''B'', ads = ''propene'', t = 305, type_r = ''sim'',
          vals = [''kH'' \<mapsto> 3]\<rparr>]\<rparr>"

text \<open>
  An external parser that decodes the references \<open>a1\<close> and \<open>b1\<close> and returns nothing
  for any other, and the session that starts from the model above with no thread
  started and no callback queued.
\<close>

definition demo_parsed :: "string \<Rightarrow> iso" where
  "demo_parsed r =
     \<lparr>iso_label = r, iso_loading = [Fin 1, Fin 3], iso_pressure = [Fin 1, Fin 2],
      iso_doi = ''10.1000/demo'', iso_temp = ''303''\<rparr>"

definition demo_load :: "string \<Rightarrow> iso option" where
  "demo_load r = (if r = ''a1'' \<or> r = ''b1'' then Some (demo_parsed r) else None)"

definition demo_system :: system where
  "demo_system = \<lparr>model = demo_model, threads = [], queue = []\<rparr>"

text \<open>The median emission of material \<open>A\<close> for the first adsorbate, and the curve it
  is streamed as.\<close>

definition demo_median_A :: iso where
  "demo_median_A =
     \<lparr>iso_label = ''median'', iso_loading = [Fin 1, Fin 2],
      iso_pressure = [Fin 0, Fin (1 / 2), Fin 1], iso_doi = '''', iso_temp = ''''\<rparr>"

text \<open>
  A raw dataset with one material that has both adsorbates (and one that has only the
  first), the table \<open>select_data\<close> builds from it, the snapshot \<open>gen_data\<close> computes from
  that table at the pressures 0.5, 0.5 and 5, the uptake patch at pressure 1.0, and the
  table after that patch has been written through the snapshot's views.
\<close>

definition demo_raw :: dataset where
  "demo_raw =
     \<lparr>num_columns = [''kH'', ''0.5'', ''1.0'', ''5.0''],
      rows =
        [\<lparr>mat = ''A'', ads = ''propane'', t = 300, type_r = ''exp'',
          vals = [''kH'' \<mapsto> 1, ''0.5'' \<mapsto> 1, ''1.0'' \<mapsto> 3, ''5.0'' \<mapsto> 5]\<rparr>,
         \<lparr>mat = ''B'', ads = ''propane'', t = 300, type_r = ''exp'',
          vals = [''kH'' \<mapsto> 4]\<rparr>,
         \<lparr>mat = ''A'', ads = ''propene'', t = 305, type_r = ''exp'',
          vals = [''kH'' \<mapsto> 2, ''0.5'' \<mapsto> 2, ''1.0'' \<mapsto> 4, ''5.0'' \<mapsto> 8]\<rparr>]\<rparr>"

definition demo_raw_columns :: "((string \<times> string) \<times> fnum list) list" where
  "demo_raw_columns =
     [((''kH_x'', ''size''), [Fin 1]), ((''kH_x'', ''med''), [Fin 1]),
      ((''kH_x'', ''err''), [Fin 0]), ((''0.5_x'', ''size''), [Fin 1]),
      ((''0.5_x'', ''med''), [Fin 1]), ((''0.5_x'', ''err''), [Fin 0]),
      ((''1.0_x'', ''size''), [Fin 1]), ((''1.0_x'', ''med''), [Fin 3]),
      ((''1.0_x'', ''err''), [Fin 0]), ((''5.0_x'', ''size''), [Fin 1]),
      ((''5.0_x'', ''med''), [Fin 5]), ((''5.0_x'', ''err''), [Fin 0]),
      ((''kH_y'', ''size''), [Fin 1]), ((''kH_y'', ''med''), [Fin 2]),
      ((''kH_y'', ''err''), [Fin 0]), ((''0.5_y'', ''size''), [Fin 1]),
      ((''0.5_y'', ''med''), [Fin 2]), ((''0.5_y'', ''err''), [Fin 0]),
      ((''1.0_y'', ''size''), [Fin 1]), ((''1.0_y'', ''med''), [Fin 4]),
      ((''1.0_y'', ''err''), [Fin 0]), ((''5.0_y'', ''size''), [Fin 1]),
      ((''5.0_y'', ''med''), [Fin 8]), ((''5.0_y'', ''err''), [Fin 0])]"

definition demo_raw_table :: table where
  "demo_raw_table =
     \<lparr>index = [''A''], columns = demo_raw_columns, seq_columns = [], ref_columns = []\<rparr>"

definition demo_raw_model :: datamodel where
  "demo_raw_model = demo_model\<lparr>df := demo_raw\<rparr>"

definition demo_raw_data :: source where
  "demo_raw_data =
     \<lparr>labels = [''A''],
      cols = map_of
        [(''sel'', [Fin 2]), (''psa_W'', [Fin 1]),
         (''K_x'', [Fin 1]), (''K_y'', [Fin 2]),
         (''K_nx'', [Fin 1]), (''K_ny'', [Fin 1]), (''K_n'', [Fin 2]),
         (''L_x'', [Fin 1]), (''L_y'', [Fin 2]),
         (''L_nx'', [Fin 1]), (''L_ny'', [Fin 1]), (''L_n'', [Fin 2]),
         (''W_x'', [Fin 4]), (''W_y'', [Fin 6]),
         (''W_nx'', [Fin 1]), (''W_ny'', [Fin 1]), (''W_n'', [Fin 2])]\<rparr>"

definition demo_raw_patch :: patch where
  "demo_raw_patch =
     [(''L_x'', [Fin 3]), (''L_y'', [Fin 4]), (''L_nx'', [Fin 1]), (''L_ny'', [Fin 1]),
      (''L_n'', [Fin 2])]"

definition demo_raw_overwritten :: table where
  "demo_raw_overwritten =
     demo_raw_table\<lparr>columns :=
       set_column (''0.5_y'', ''size'') [Fin 1]
         (set_column (''0.5_x'', ''size'') [Fin 1]
           (set_column (''0.5_y'', ''med'') [Fin 4]
             (set_column (''0.5_x'', ''med'') [Fin 3] demo_raw_columns)))\<rparr>"

section \<open>Consistency of a snapshot with the cached table\<close>

text \<open>The names of the snapshot's numeric columns, and the snapshots that have each of
  them with one entry per row of the table.\<close>

definition data_keys :: "string list" where
  "data_keys =
     [''sel'', ''psa_W'', ''K_x'', ''K_y'', ''K_nx'', ''K_ny'', ''K_n'',
      ''L_x'', ''L_y'', ''L_nx'', ''L_ny'', ''L_n'',
      ''W_x'', ''W_y'', ''W_nx'', ''W_ny'', ''W_n'']"

definition snapshot_fits :: "table \<Rightarrow> source \<Rightarrow> bool" where
  "snapshot_fits d s =
     list_all (\<lambda>k. case cols s k of None \<Rightarrow> False | Some c \<Rightarrow> length c = length (index d))
       data_keys"

section \<open>Reading the overlay\<close>

text \<open>
  Every selected row contributes two consecutive entries to each overlay column;
  \<open>pair_at j\<close> is the pair of the \<open>j\<close>-th selected row, and \<open>family_at f out j\<close> are
  that row's pairs in the six columns of the metric family \<open>f\<close> (\<open>K\<close>, \<open>L\<close> or \<open>W\<close>):
  the point \<open>f_x\<close>, \<open>f_y\<close> and the segment ends \<open>f_x0\<close>, \<open>f_y0\<close>, \<open>f_x1\<close>, \<open>f_y1\<close>.
\<close>

definition pair_at :: "nat \<Rightarrow> 'a list \<Rightarrow> 'a list" where
  "pair_at j xs = take 2 (drop (2 * j) xs)"

definition family_at :: "string \<Rightarrow> source \<Rightarrow> nat \<Rightarrow> fnum list option list" where
  "family_at f out j =
     map (\<lambda>sfx. map_option (pair_at j) (cols out (f @ sfx)))
       [''_x'', ''_y'', ''_x0'', ''_y0'', ''_x1'', ''_y1'']"

text \<open>
  The six pairs of a row with values \<open>x\<close>, \<open>y\<close> and error terms \<open>ex\<close>, \<open>ey\<close>: the point
  twice on each axis, then the starts \<open>(x0, y0)\<close> and the ends \<open>(x1, y1)\<close> of two
  segments, a horizontal bar from \<open>x - ex\<close> to \<open>x + ex\<close> at \<open>y\<close> and a vertical bar from
  \<open>y - ey\<close> to \<open>y + ey\<close> at \<open>x\<close>.
\<close>

definition error_bars :: "fnum \<Rightarrow> fnum \<Rightarrow> fnum \<Rightarrow> fnum \<Rightarrow> fnum list option list" where
  "error_bars x y ex ey =
     [Some [x, x], Some [y, y],
      Some [fsub x ex, x], Some [y, fsub y ey],
      Some [fadd x ex, x], Some [y, fadd y ey]]"

text \<open>A cache read that returns a value.\<close>

definition cached :: "py_error + fnum \<Rightarrow> bool" where
  "cached v = (case v of Inl e \<Rightarrow> False | Inr a \<Rightarrow> True)"

text \<open>
  A selected row the overlay can be generated for: the row is in the snapshot, and each
  family that has no \<open>nan\<close> value has its error terms in the cache. A family with a
  \<open>nan\<close> value asks nothing of the cache.
\<close>

definition row_ready :: "datamodel \<Rightarrow> nat \<Rightarrow> bool" where
  "row_ready self i =
     (case row_vals self i of
        Inl e \<Rightarrow> False
      | Inr (m, kx, ky, lx, ly, wx, wy) \<Rightarrow>
          (isnan kx \<or> isnan ky \<or>
             cached (dfs_loc self m (''kH_x'', ''err'')) \<and>
             cached (dfs_loc self m (''kH_y'', ''err''))) \<and>
          (isnan lx \<or> isnan ly \<or>
             cached (dfs_loc self m (col_x (lp self), ''err'')) \<and>
             cached (dfs_loc self m (col_y (lp self), ''err''))) \<and>
          (isnan wx \<or> isnan wy \<or>
             cached (dfs_loc self m (col_x (p1 self), ''err'')) \<and>
             cached (dfs_loc self m (col_x (p2 self), ''err'')) \<and>
             cached (dfs_loc self m (col_y (p1 self), ''err'')) \<and>
             cached (dfs_loc self m (col_y (p2 self), ''err''))))"

text \<open>The columns of the uptake family in the overlay.\<close>

definition L_error_keys :: "string list" where
  "L_error_keys = [''L_x'', ''L_y'', ''L_x0'', ''L_y0'', ''L_x1'', ''L_y1'']"

section \<open>Properties of \<open>stats\<close>\<close>

lemma nanpercentile_example_q3: "nanpercentile [1, 2, 3, 4, 100] 75 = 4"
  by (simp add: nanpercentile_def Let_def)

lemma nanpercentile_example_q1: "nanpercentile [1, 2, 3, 4, 100] 25 = 2"
  by (simp add: nanpercentile_def Let_def)

text \<open>
  Claim C1. For more than four present samples, \<open>stats\<close> is to reject exactly the samples
  outside \<open>[Q1 - 1.5 IQR, Q3 + 1.5 IQR]\<close> and to compute median and error on the survivors;
  for \<open>[1, 2, 3, 4, 100]\<close> the quartiles are 2 and 4, the bounds \<open>[-1, 7]\<close>, and 100 is to be
  rejected. The code's mask keeps every sample above the lower bound, so 100 survives:
  the median is 3 (not 2.5, the median of \<open>[1, 2, 3, 4]\<close>) and the error is the
  deviation of all five samples.
\<close>

theorem stats_keeps_upper_outlier:
  "stats [Some 1, Some 2, Some 3, Some 4, Some 100]
     = \<lparr>ssize = Fin 5, med = Fin 3, err = Fin (sqrt 1522)\<rparr>
   \<and> spec_survivors [1, 2, 3, 4, 100] = [1, 2, 3, 4]
   \<and> np_median (spec_survivors [1, 2, 3, 4, 100]) = Fin (5 / 2)
   \<and> np_std (spec_survivors [1, 2, 3, 4, 100]) = Fin (sqrt (5 / 4))"
proof -
  have code: "stats [Some 1, Some 2, Some 3, Some 4, Some 100]
      = \<lparr>ssize = Fin 5, med = Fin 3, err = Fin (sqrt 1522)\<rparr>"
    by (simp add: stats_def dropna_def List.map_filter_def Let_def
        nanpercentile_example_q3 nanpercentile_example_q1 o_rem_mask_def
        np_median_def np_std_def mean_def power2_eq_square)
  have surv: "spec_survivors [1, 2, 3, 4, 100] = [1, 2, 3, 4]"
    by (simp add: spec_survivors_def Let_def
        nanpercentile_example_q3 nanpercentile_example_q1)
  have m: "np_median [1, 2, 3, 4] = Fin (5 / 2)"
    by (simp add: np_median_def Let_def)
  have s: "np_std [1, 2, 3, 4] = Fin (sqrt (5 / 4))"
    by (simp add: np_std_def mean_def power2_eq_square)
  from code surv m s show ?thesis by simp
qed

lemma dropna_present: "map Some (dropna series) = filter (\<lambda>v. v \<noteq> None) series"
  by (induction series) (auto simp: dropna_def List.map_filter_def)

lemma np_median_order_statistic:
  assumes "xs \<noteq> []"
  shows "\<exists>s. sorted s \<and> mset s = mset xs
      \<and> np_median xs = Fin (if odd (length s) then s ! (length s div 2)
            else (s ! (length s div 2 - 1) + s ! (length s div 2)) / 2)"
proof -
  have "np_median xs = Fin (if odd (length (sort xs)) then sort xs ! (length (sort xs) div 2)
            else (sort xs ! (length (sort xs) div 2 - 1) + sort xs ! (length (sort xs) div 2)) / 2)"
  proof -
    have "sort xs \<noteq> []" using assms by (metis length_0_conv length_sort)
    then show ?thesis by (simp add: np_median_def Let_def odd_iff_mod_2_eq_one)
  qed
  moreover have "sorted (sort xs)" "mset (sort xs) = mset xs" by simp_all
  ultimately show ?thesis by blast
qed

lemma np_std_formula:
  assumes "xs \<noteq> []"
  shows "np_std xs = Fin (sqrt ((\<Sum>x\<leftarrow>xs. (x - (\<Sum>y\<leftarrow>xs. y) / real (length xs))\<^sup>2) / real (length xs)))"
  using assms by (simp add: np_std_def mean_def)

text \<open>
  Claim C8. The count is the number of present samples, which \<open>dropna\<close> keeps in order.
  With no present sample \<open>stats\<close> returns median \<open>nan\<close> and error 0; with one, that
  value and error 0; with two to four, the sample median (the middle element of the
  samples in ascending order, the mean of the two middle ones for an even count) and the
  population standard deviation (the root of the mean squared deviation from the mean)
  of all present samples, with no rejection.
\<close>

theorem stats_small_sample_policy:
  "map Some (dropna series) = filter (\<lambda>v. v \<noteq> None) series
   \<and> ssize (stats series) = Fin (real (length (dropna series)))
   \<and> (length (dropna series) = 0 \<longrightarrow>
        med (stats series) = NaN \<and> err (stats series) = Fin 0)
   \<and> (\<forall>v. dropna series = [v] \<longrightarrow>
        med (stats series) = Fin v \<and> err (stats series) = Fin 0)
   \<and> (2 \<le> length (dropna series) \<and> length (dropna series) \<le> 4 \<longrightarrow>
        (\<exists>s. sorted s \<and> mset s = mset (dropna series)
           \<and> med (stats series) = Fin (if odd (length s) then s ! (length s div 2)
                else (s ! (length s div 2 - 1) + s ! (length s div 2)) / 2))
        \<and> err (stats series) = Fin (sqrt ((\<Sum>x\<leftarrow>dropna series.
              (x - (\<Sum>y\<leftarrow>dropna series. y) / real (length (dropna series)))\<^sup>2)
              / real (length (dropna series)))))"
proof -
  have small: "ssize (stats series) = Fin (real (length (dropna series)))
      \<and> (length (dropna series) = 0 \<longrightarrow>
        med (stats series) = NaN \<and> err (stats series) = Fin 0)
      \<and> (\<forall>v. dropna series = [v] \<longrightarrow>
        med (stats series) = Fin v \<and> err (stats series) = Fin 0)"
    by (auto simp: stats_def Let_def)
  have mid: "(\<exists>s. sorted s \<and> mset s = mset (dropna series)
           \<and> med (stats series) = Fin (if odd (length s) then s ! (length s div 2)
                else (s ! (length s div 2 - 1) + s ! (length s div 2)) / 2))
        \<and> err (stats series) = Fin (sqrt ((\<Sum>x\<leftarrow>dropna series.
              (x - (\<Sum>y\<leftarrow>dropna series. y) / real (length (dropna series)))\<^sup>2)
              / real (length (dropna series))))"
    if n: "2 \<le> length (dropna series) \<and> length (dropna series) \<le> 4"
  proof -
    from n have ne: "dropna series \<noteq> []" by auto
    from n have "med (stats series) = np_median (dropna series)"
        "err (stats series) = np_std (dropna series)"
      by (auto simp: stats_def Let_def)
    with np_median_order_statistic [OF ne] np_std_formula [OF ne] show ?thesis by simp
  qed
  from small mid dropna_present show ?thesis by blast
qed

theorem stats_small_sample_policy_witness:
  "ssize (stats []) = Fin 0 \<and> med (stats []) = NaN \<and> err (stats []) = Fin 0
   \<and> dropna [None, Some 7] = [7]
   \<and> ssize (stats [None, Some 7]) = Fin 1
   \<and> med (stats [None, Some 7]) = Fin 7 \<and> err (stats [None, Some 7]) = Fin 0
   \<and> dropna [Some 3, None, Some 1, Some 2] = [3, 1, 2]
   \<and> ssize (stats [Some 3, None, Some 1, Some 2]) = Fin 3
   \<and> med (stats [Some 3, None, Some 1, Some 2]) = Fin 2
   \<and> err (stats [Some 3, None, Some 1, Some 2]) = Fin (sqrt (2 / 3))
   \<and> dropna [Some 101, Some 0, None, Some 2, Some 1] = [101, 0, 2, 1]
   \<and> ssize (stats [Some 101, Some 0, None, Some 2, Some 1]) = Fin 4
   \<and> med (stats [Some 101, Some 0, None, Some 2, Some 1]) = Fin (3 / 2)
   \<and> err (stats [Some 101, Some 0, None, Some 2, Some 1]) = Fin (sqrt (3751 / 2))"
proof -
  have d0: "dropna [] = []"
    by (simp add: dropna_def List.map_filter_def)
  have d1: "dropna [None, Some 7] = [7]"
    by (simp add: dropna_def List.map_filter_def)
  have d3: "dropna [Some 3, None, Some 1, Some 2] = [3, 1, 2]"
    by (simp add: dropna_def List.map_filter_def)
  have d4: "dropna [Some 101, Some 0, None, Some 2, Some 1] = [101, 0, 2, 1]"
    by (simp add: dropna_def List.map_filter_def)
  have a: "ssize (stats []) = Fin 0 \<and> med (stats []) = NaN \<and> err (stats []) = Fin 0"
    using stats_small_sample_policy [of "[]"] by (simp add: d0)
  have b: "ssize (stats [None, Some 7]) = Fin 1
      \<and> med (stats [None, Some 7]) = Fin 7 \<and> err (stats [None, Some 7]) = Fin 0"
    using stats_small_sample_policy [of "[None, Some 7]"] by (simp add: d1)
  from stats_small_sample_policy [of "[Some 3, None, Some 1, Some 2]"]
  obtain s where s: "sorted s" "mset s = mset [3, 1, 2::real]"
      "med (stats [Some 3, None, Some 1, Some 2])
         = Fin (if odd (length s) then s ! (length s div 2)
                else (s ! (length s div 2 - 1) + s ! (length s div 2)) / 2)"
    and c: "ssize (stats [Some 3, None, Some 1, Some 2]) = Fin 3"
      "err (stats [Some 3, None, Some 1, Some 2]) = Fin (sqrt (2 / 3))"
    by (auto simp: d3 power2_eq_square)
  from properties_for_sort [OF s(2) s(1)] have "s = [1, 2, 3]" by simp
  with s(3) have cm: "med (stats [Some 3, None, Some 1, Some 2]) = Fin 2" by simp
  from stats_small_sample_policy [of "[Some 101, Some 0, None, Some 2, Some 1]"]
  obtain u where u: "sorted u" "mset u = mset [101, 0, 2, 1::real]"
      "med (stats [Some 101, Some 0, None, Some 2, Some 1])
         = Fin (if odd (length u) then u ! (length u div 2)
                else (u ! (length u div 2 - 1) + u ! (length u div 2)) / 2)"
    and e: "ssize (stats [Some 101, Some 0, None, Some 2, Some 1]) = Fin 4"
      "err (stats [Some 101, Some 0, None, Some 2, Some 1]) = Fin (sqrt (3751 / 2))"
    by (auto simp: d4 power2_eq_square)
  from properties_for_sort [OF u(2) u(1)] have "u = [0, 1, 2, 101]" by simp
  with u(3) have em: "med (stats [Some 101, Some 0, None, Some 2, Some 1]) = Fin (3 / 2)"
    by simp
  from a b c cm e em d1 d3 d4 show ?thesis by simp
qed

section \<open>Lemmas on errors, tables and patches\<close>

lemma ebind_eq_Inr: "ebind m f = Inr y \<longleftrightarrow> (\<exists>v. m = Inr v \<and> f v = Inr y)"
  by (cases m) (simp_all add: ebind_def)

lemma ebind_Inr: "ebind (Inr v) f = f v"
  by (simp add: ebind_def)

lemma ebind_Inl: "ebind (Inl e) f = Inl e"
  by (simp add: ebind_def)

lemma col_values_length:
  "wf_table d \<Longrightarrow> col_values d key = Inr c \<Longrightarrow> length c = length (index d)"
  by (auto simp: wf_table_def col_values_def list_all_iff split: option.splits dest!: map_of_SomeD)

lemma apply_entries_frame:
  "apply_entries assign s p = Inr s' \<Longrightarrow>
     labels s' = labels s \<and> (\<forall>k. k \<notin> fst ` set p \<longrightarrow> cols s' k = cols s k)"
proof (induction p arbitrary: s)
  case Nil
  then show ?case by simp
next
  case (Cons kv p)
  obtain k v where kv: "kv = (k, v)" by (cases kv)
  from Cons.prems kv obtain old new where
    "cols s k = Some old" "assign old v = Inr new"
    and rest: "apply_entries assign (s\<lparr>cols := (cols s)(k \<mapsto> new)\<rparr>) p = Inr s'"
    by (auto simp: ebind_eq_Inr split: option.splits)
  from Cons.IH [OF rest] kv show ?case by auto
qed

lemma apply_entries_array:
  "distinct (map fst p) \<Longrightarrow>
   list_all (\<lambda>kv. case cols s (fst kv) of None \<Rightarrow> False
                  | Some old \<Rightarrow> length old = length (snd kv)) p \<Longrightarrow>
   \<exists>s'. apply_entries assign_array s p = Inr s' \<and> labels s' = labels s
     \<and> (\<forall>k. cols s' k = (case map_of p k of None \<Rightarrow> cols s k | Some v \<Rightarrow> Some v))"
proof (induction p arbitrary: s)
  case Nil
  then show ?case by simp
next
  case (Cons kv p)
  obtain k v where kv: "kv = (k, v)" by (cases kv)
  from Cons.prems kv obtain old where old: "cols s k = Some old" "length old = length v"
    by (auto split: option.splits)
  let ?s1 = "s\<lparr>cols := (cols s)(k \<mapsto> v)\<rparr>"
  have d: "distinct (map fst p)" and nk: "k \<notin> fst ` set p"
    using Cons.prems kv by auto
  have "list_all (\<lambda>kv. case cols ?s1 (fst kv) of None \<Rightarrow> False
                  | Some old \<Rightarrow> length old = length (snd kv)) p"
    using Cons.prems(2) nk by (auto simp: list_all_iff split: option.splits)
  from Cons.IH [OF d this] obtain s' where
    s': "apply_entries assign_array ?s1 p = Inr s'" "labels s' = labels s"
      "\<forall>k'. cols s' k' = (case map_of p k' of None \<Rightarrow> cols ?s1 k' | Some v \<Rightarrow> Some v)"
    by auto
  have none: "map_of p k = None" using nk by (simp add: map_of_eq_None_iff)
  have a: "assign_array old v = Inr v" using old by (simp add: assign_array_def)
  have run: "apply_entries assign_array s (kv # p) = Inr s'"
    using kv old a s'(1) by (simp add: ebind_Inr)
  have "\<forall>k'. cols s' k' = (case map_of (kv # p) k' of None \<Rightarrow> cols s k' | Some v \<Rightarrow> Some v)"
    using s'(3) kv none by (auto split: option.splits)
  with run s'(2) show ?case by blast
qed

lemma gen_data_L_columns:
  assumes "dfs self = Some d" and "gen_data self = Inr full"
  shows "\<exists>L_nx L_x L_ny L_y.
     col_values d (col_x (lp self), ''size'') = Inr L_nx \<and>
     col_values d (col_x (lp self), ''med'') = Inr L_x \<and>
     col_values d (col_y (lp self), ''size'') = Inr L_ny \<and>
     col_values d (col_y (lp self), ''med'') = Inr L_y \<and>
     cols full ''L_x'' = Some L_x \<and> cols full ''L_y'' = Some L_y \<and>
     cols full ''L_nx'' = Some L_nx \<and> cols full ''L_ny'' = Some L_ny \<and>
     cols full ''L_n'' = Some (map2 fadd L_nx L_ny)"
  using assms by (auto simp: gen_data_def ebind_eq_Inr Let_def)


lemma snapshot_fits_col:
  "snapshot_fits d s \<Longrightarrow> k \<in> set data_keys \<Longrightarrow>
     \<exists>c. cols s k = Some c \<and> length c = length (index d)"
  by (auto simp: snapshot_fits_def list_all_iff split: option.splits)

lemmas fmt = format_1f_def round_half_even_def str_nat.simps digit_char_def col_x_def col_y_def

lemma demo_col_names:
  "col_x (1 / 2) = ''0.5_x''" "col_y (1 / 2) = ''0.5_y''"
  "col_x 5 = ''5.0_x''" "col_y 5 = ''5.0_y''"
  "col_x 1 = ''1.0_x''" "col_y 1 = ''1.0_y''"
  by (simp_all add: fmt Let_def)

lemma wf_demo_table: "wf_table demo_table"
  by (simp add: wf_table_def demo_table_def demo_columns_def)

lemma gen_data_demo: "gen_data demo_model = Inr demo_data"
  by (simp add: gen_data_def demo_model_def demo_base_def demo_table_def demo_col_names
      col_values_def demo_columns_def ebind_def Let_def fsub_def inf_of_sign_def demo_data_def)

lemma snapshot_fits_demo: "snapshot_fits demo_table (data demo_model)"
  by (simp add: snapshot_fits_def data_keys_def demo_model_def demo_data_def demo_table_def)

lemma pair_at_concat:
  "(\<And>r. length (g r) = 2) \<Longrightarrow> j < length rs \<Longrightarrow> pair_at j (concat (map g rs)) = g (rs ! j)"
proof (induction rs arbitrary: j)
  case Nil
  then show ?case by simp
next
  case (Cons r rs)
  show ?case
  proof (cases j)
    case 0
    then show ?thesis using Cons.prems(1) [of r] by (simp add: pair_at_def)
  next
    case (Suc j')
    with Cons.prems have "j' < length rs" by simp
    from Cons.IH [OF Cons.prems(1) this] Suc Cons.prems(1) [of r]
    show ?thesis by (simp add: pair_at_def)
  qed
qed

lemma for_each_Inr:
  "for_each f ixs = Inr rs \<Longrightarrow>
     length rs = length ixs \<and> (\<forall>j<length ixs. f (ixs ! j) = Inr (rs ! j))"
proof (induction ixs arbitrary: rs)
  case Nil
  then show ?case by simp
next
  case (Cons i ixs)
  from Cons.prems obtain v vs where
    v: "f i = Inr v" and vs: "for_each f ixs = Inr vs" and rs: "rs = v # vs"
    by (auto simp: ebind_eq_Inr)
  from Cons.IH [OF vs] v rs show ?case
    by (auto simp: nth_Cons split: nat.splits)
qed

lemma for_each_total:
  "list_all (\<lambda>i. \<exists>r. f i = Inr r) ixs \<Longrightarrow> \<exists>rs. for_each f ixs = Inr rs"
  by (induction ixs) (auto simp: ebind_Inr)

section \<open>The uptake patch and the full recompute\<close>

text \<open>
  On the cache as it is when the patch runs, \<open>patch_data_l\<close> reads the columns
  \<open>gen_data\<close> reads, and the patched snapshot has the uptake columns \<open>gen_data\<close> would
  compute from that cache.
\<close>

lemma patch_data_l_on_current_cache:
  assumes d: "dfs self = Some d" and wf: "wf_table d"
    and fits: "snapshot_fits d (data self)"
    and full: "gen_data (self\<lparr>lp := p\<rparr>) = Inr full"
  shows "\<exists>pt snap. patch_data_l (self\<lparr>lp := p\<rparr>) = Inr pt
      \<and> cds_patch assign_array (data self) pt = Inr snap
      \<and> labels snap = labels (data self)
      \<and> cols snap ''L_x'' = cols full ''L_x'' \<and> cols snap ''L_y'' = cols full ''L_y''
      \<and> cols snap ''L_nx'' = cols full ''L_nx'' \<and> cols snap ''L_ny'' = cols full ''L_ny''
      \<and> cols snap ''L_n'' = cols full ''L_n''"
proof -
  from d have d': "dfs (self\<lparr>lp := p\<rparr>) = Some d" by simp
  from gen_data_L_columns [OF d' full] obtain L_nx L_x L_ny L_y where
    c: "col_values d (col_x p, ''size'') = Inr L_nx"
       "col_values d (col_x p, ''med'') = Inr L_x"
       "col_values d (col_y p, ''size'') = Inr L_ny"
       "col_values d (col_y p, ''med'') = Inr L_y"
    and f: "cols full ''L_x'' = Some L_x" "cols full ''L_y'' = Some L_y"
       "cols full ''L_nx'' = Some L_nx" "cols full ''L_ny'' = Some L_ny"
       "cols full ''L_n'' = Some (map2 fadd L_nx L_ny)"
    by auto
  let ?pt = "[(''L_x'', L_x), (''L_y'', L_y), (''L_nx'', L_nx), (''L_ny'', L_ny),
              (''L_n'', map2 fadd L_nx L_ny)]"
  have pt: "patch_data_l (self\<lparr>lp := p\<rparr>) = Inr ?pt"
    using d c by (simp add: patch_data_l_def ebind_Inr Let_def)
  have len: "length L_x = length (index d)" "length L_y = length (index d)"
      "length L_nx = length (index d)" "length L_ny = length (index d)"
    using c wf by (auto dest: col_values_length)
  have o: "\<exists>c. cols (data self) ''L_x'' = Some c \<and> length c = length (index d)"
      "\<exists>c. cols (data self) ''L_y'' = Some c \<and> length c = length (index d)"
      "\<exists>c. cols (data self) ''L_nx'' = Some c \<and> length c = length (index d)"
      "\<exists>c. cols (data self) ''L_ny'' = Some c \<and> length c = length (index d)"
      "\<exists>c. cols (data self) ''L_n'' = Some c \<and> length c = length (index d)"
    by (rule snapshot_fits_col [OF fits], simp add: data_keys_def)+
  have pre: "list_all (\<lambda>kv. case cols (data self) (fst kv) of None \<Rightarrow> False
                  | Some old \<Rightarrow> length old = length (snd kv)) ?pt"
    using o len by auto
  have "distinct (map fst ?pt)" by simp
  from apply_entries_array [OF this pre] obtain snap where
    snap: "apply_entries assign_array (data self) ?pt = Inr snap"
      "labels snap = labels (data self)"
      "\<forall>k. cols snap k = (case map_of ?pt k of None \<Rightarrow> cols (data self) k | Some v \<Rightarrow> Some v)"
    by blast
  have ok: "list_all (\<lambda>kv. cols (data self) (fst kv) \<noteq> None) ?pt"
    using o by auto
  have run: "cds_patch assign_array (data self) ?pt = Inr snap"
    using snap(1) ok unfolding cds_patch_def by simp
  have eq: "cols snap ''L_x'' = cols full ''L_x''" "cols snap ''L_y'' = cols full ''L_y''"
      "cols snap ''L_nx'' = cols full ''L_nx''" "cols snap ''L_ny'' = cols full ''L_ny''"
      "cols snap ''L_n'' = cols full ''L_n''"
    using snap(3) f by simp_all
  show ?thesis
    by (intro exI conjI) (rule pt run snap(2) eq)+
qed

text \<open>
  The patch is written in place, and the snapshot's uptake columns are views of the
  cache: the patch overwrites the cache's columns of the pressure of the last full
  recompute.
\<close>

lemma select_data_demo_raw:
  "select_data demo_raw None 303 10 ''propane'' ''propene'' = Some demo_raw_table"
  by (simp add: select_data_def demo_raw_def truthy_def between_def unique_def calc_kpi_def
      merge_mat_def Let_def suffixed_def take_rows_def stat_field_def stats_def dropna_def
      List.map_filter_def demo_raw_table_def demo_raw_columns_def del: set_filter)

lemma demo_raw_cols:
  "col_values demo_raw_table (''kH_x'', ''size'') = Inr [Fin 1]"
  "col_values demo_raw_table (''kH_x'', ''med'') = Inr [Fin 1]"
  "col_values demo_raw_table (''kH_y'', ''size'') = Inr [Fin 1]"
  "col_values demo_raw_table (''kH_y'', ''med'') = Inr [Fin 2]"
  "col_values demo_raw_table (''0.5_x'', ''size'') = Inr [Fin 1]"
  "col_values demo_raw_table (''0.5_x'', ''med'') = Inr [Fin 1]"
  "col_values demo_raw_table (''0.5_y'', ''size'') = Inr [Fin 1]"
  "col_values demo_raw_table (''0.5_y'', ''med'') = Inr [Fin 2]"
  "col_values demo_raw_table (''1.0_x'', ''size'') = Inr [Fin 1]"
  "col_values demo_raw_table (''1.0_x'', ''med'') = Inr [Fin 3]"
  "col_values demo_raw_table (''1.0_y'', ''size'') = Inr [Fin 1]"
  "col_values demo_raw_table (''1.0_y'', ''med'') = Inr [Fin 4]"
  "col_values demo_raw_table (''5.0_x'', ''size'') = Inr [Fin 1]"
  "col_values demo_raw_table (''5.0_x'', ''med'') = Inr [Fin 5]"
  "col_values demo_raw_table (''5.0_y'', ''size'') = Inr [Fin 1]"
  "col_values demo_raw_table (''5.0_y'', ''med'') = Inr [Fin 8]"
  by (simp_all add: col_values_def demo_raw_table_def demo_raw_columns_def)

lemma index_demo_raw: "index demo_raw_table = [''A'']"
  by (simp add: demo_raw_table_def)

lemma gen_data_demo_raw:
  assumes "dfs self = Some demo_raw_table" "lp self = 1 / 2" "p1 self = 1 / 2" "p2 self = 5"
  shows "gen_data self = Inr demo_raw_data"
  by (simp add: gen_data_def assms demo_col_names demo_raw_cols ebind_Inr Let_def fsub_def
      index_demo_raw demo_raw_data_def)

lemma gen_data_views_dfs: "gen_data_views (self\<lparr>dfs := x\<rparr>) = gen_data_views self"
  by (simp add: gen_data_views_def)

lemma calculate_demo_raw:
  assumes "df self = demo_raw" "iso_type self = None" "t_abs self = 303" "t_tol self = 10"
    "g1 self = ''propane''" "g2 self = ''propene''" "lp self = 1 / 2" "p1 self = 1 / 2"
    "p2 self = 5"
  shows "calculate self = Inr (self\<lparr>dfs := Some demo_raw_table, data := demo_raw_data,
      data_views := gen_data_views self\<rparr>)"
proof -
  have g: "gen_data (self\<lparr>dfs := Some demo_raw_table\<rparr>) = Inr demo_raw_data"
    by (rule gen_data_demo_raw) (simp_all add: assms)
  show ?thesis
    by (simp add: calculate_def Let_def assms select_data_demo_raw g ebind_Inr
        gen_data_views_dfs)
qed

lemma uptake_callback_no_selection:
  assumes "selected self = []"
    and "patch_data_l (self\<lparr>lp := new\<rparr>) = Inr pt"
    and "cds_patch assign_array (data self) pt = Inr snap"
  shows "uptake_callback self new =
     Inr (self\<lparr>lp := new, data := snap,
              dfs := map_option (write_views (data_views self) snap (map fst pt)) (dfs self)\<rparr>)"
  using assms by (simp add: uptake_callback_def Let_def data_patch_def ebind_Inr)

lemma patch_data_l_demo_raw:
  assumes "dfs self = Some demo_raw_table" "lp self = 1"
  shows "patch_data_l self = Inr demo_raw_patch"
  by (simp add: patch_data_l_def assms demo_col_names demo_raw_cols ebind_Inr Let_def
      demo_raw_patch_def)

lemma demo_raw_overwritten_cols:
  "col_values demo_raw_overwritten (''0.5_x'', ''size'') = Inr [Fin 1]"
  "col_values demo_raw_overwritten (''0.5_x'', ''med'') = Inr [Fin 3]"
  "col_values demo_raw_overwritten (''0.5_y'', ''size'') = Inr [Fin 1]"
  "col_values demo_raw_overwritten (''0.5_y'', ''med'') = Inr [Fin 4]"
  by (simp_all add: col_values_def demo_raw_overwritten_def demo_raw_columns_def set_column_def)

lemma patch_data_l_overwritten:
  assumes "dfs self = Some demo_raw_overwritten" "lp self = 1 / 2"
  shows "patch_data_l self = Inr demo_raw_patch"
  by (simp add: patch_data_l_def assms demo_col_names demo_raw_overwritten_cols ebind_Inr
      Let_def demo_raw_patch_def)

text \<open>Applying the patch to a snapshot whose uptake columns have one row.\<close>

lemma cds_patch_demo_raw:
  assumes "cols s ''L_x'' = Some [a]" "cols s ''L_y'' = Some [b]" "cols s ''L_nx'' = Some [c]"
    "cols s ''L_ny'' = Some [d]" "cols s ''L_n'' = Some [e]"
  shows "\<exists>snap. cds_patch assign_array s demo_raw_patch = Inr snap
     \<and> cols snap ''L_x'' = Some [Fin 3] \<and> cols snap ''L_y'' = Some [Fin 4]
     \<and> cols snap ''L_nx'' = Some [Fin 1] \<and> cols snap ''L_ny'' = Some [Fin 1]
     \<and> cols snap ''L_n'' = Some [Fin 2]"
  using assms
  by (simp add: cds_patch_def demo_raw_patch_def assign_array_def ebind_Inr)

lemma write_views_demo_raw:
  assumes "cols snap ''L_x'' = Some [Fin 3]" "cols snap ''L_y'' = Some [Fin 4]"
    "cols snap ''L_nx'' = Some [Fin 1]" "cols snap ''L_ny'' = Some [Fin 1]"
    "cols snap ''L_n'' = Some [Fin 2]" "lp self = 1 / 2"
  shows "write_views (gen_data_views self) snap (map fst demo_raw_patch) demo_raw_table
      = demo_raw_overwritten"
  by (simp add: gen_data_views_def assms demo_col_names demo_raw_patch_def
      demo_raw_overwritten_def demo_raw_table_def)

lemma write_views_overwritten:
  assumes "cols snap ''L_x'' = Some [Fin 3]" "cols snap ''L_y'' = Some [Fin 4]"
    "cols snap ''L_nx'' = Some [Fin 1]" "cols snap ''L_ny'' = Some [Fin 1]"
    "cols snap ''L_n'' = Some [Fin 2]" "lp self = 1 / 2"
  shows "write_views (gen_data_views self) snap (map fst demo_raw_patch) demo_raw_overwritten
      = demo_raw_overwritten"
  by (simp add: gen_data_views_def assms demo_col_names demo_raw_patch_def
      demo_raw_overwritten_def demo_raw_table_def demo_raw_columns_def set_column_def)

lemma demo_raw_model_fields:
  "df demo_raw_model = demo_raw" "iso_type demo_raw_model = None"
  "t_abs demo_raw_model = 303" "t_tol demo_raw_model = 10"
  "g1 demo_raw_model = ''propane''" "g2 demo_raw_model = ''propene''"
  "lp demo_raw_model = 1 / 2" "p1 demo_raw_model = 1 / 2" "p2 demo_raw_model = 5"
  "selected demo_raw_model = []"
  by (simp_all add: demo_raw_model_def demo_model_def demo_base_def)

lemma demo_raw_data_cols:
  "cols demo_raw_data ''L_x'' = Some [Fin 1]" "cols demo_raw_data ''L_y'' = Some [Fin 2]"
  "cols demo_raw_data ''L_nx'' = Some [Fin 1]" "cols demo_raw_data ''L_ny'' = Some [Fin 1]"
  "cols demo_raw_data ''L_n'' = Some [Fin 2]"
  by (simp_all add: demo_raw_data_def)

text \<open>
  Claim C3. After the uptake patch at pressure \<open>p\<close> the snapshot is to have the uptake
  columns of a full recompute with the same filter criteria and uptake pressure \<open>p\<close>.
  In the session below the full recompute runs at pressure 0.5 (\<open>L_x = 1\<close>,
  \<open>L_y = 2\<close>), the uptake is patched to 1.0 (\<open>L_x = 3\<close>, \<open>L_y = 4\<close>, written through
  the views into the cache's columns of 0.5) and back to 0.5: the patch reads the
  overwritten columns and the snapshot keeps 3 and 4, where the full recompute with the
  same criteria and pressure 0.5 gives 1 and 2.
\<close>

theorem uptake_patch_overwrites_cache:
  "\<exists>m1 m2 m3 m4.
     calculate demo_raw_model = Inr m1
   \<and> cols (data m1) ''L_x'' = Some [Fin 1] \<and> cols (data m1) ''L_y'' = Some [Fin 2]
   \<and> dfs m1 = Some demo_raw_table
   \<and> uptake_callback m1 1 = Inr m2
   \<and> cols (data m2) ''L_x'' = Some [Fin 3] \<and> cols (data m2) ''L_y'' = Some [Fin 4]
   \<and> dfs m2 = Some demo_raw_overwritten
   \<and> uptake_callback m2 (1 / 2) = Inr m3
   \<and> lp m3 = 1 / 2
   \<and> cols (data m3) ''L_x'' = Some [Fin 3] \<and> cols (data m3) ''L_y'' = Some [Fin 4]
   \<and> calculate m3 = Inr m4
   \<and> df m4 = df m3 \<and> iso_type m4 = iso_type m3 \<and> t_abs m4 = t_abs m3
   \<and> t_tol m4 = t_tol m3 \<and> g1 m4 = g1 m3 \<and> g2 m4 = g2 m3
   \<and> lp m4 = lp m3 \<and> p1 m4 = p1 m3 \<and> p2 m4 = p2 m3
   \<and> cols (data m4) ''L_x'' = Some [Fin 1] \<and> cols (data m4) ''L_y'' = Some [Fin 2]"
proof -
  define m1 where "m1 = demo_raw_model\<lparr>dfs := Some demo_raw_table, data := demo_raw_data,
      data_views := gen_data_views demo_raw_model\<rparr>"
  have c1: "calculate demo_raw_model = Inr m1"
    unfolding m1_def by (rule calculate_demo_raw) (rule demo_raw_model_fields)+
  have f1: "dfs m1 = Some demo_raw_table" "data m1 = demo_raw_data"
      "data_views m1 = gen_data_views demo_raw_model" "selected m1 = []"
    by (simp_all add: m1_def demo_raw_model_fields)
  from cds_patch_demo_raw [OF demo_raw_data_cols] obtain s2 where
    s2: "cds_patch assign_array demo_raw_data demo_raw_patch = Inr s2"
    and v2: "cols s2 ''L_x'' = Some [Fin 3]" "cols s2 ''L_y'' = Some [Fin 4]"
      "cols s2 ''L_nx'' = Some [Fin 1]" "cols s2 ''L_ny'' = Some [Fin 1]"
      "cols s2 ''L_n'' = Some [Fin 2]"
    by blast
  define m2 where "m2 = m1\<lparr>lp := 1, data := s2, dfs := Some demo_raw_overwritten\<rparr>"
  have p1: "patch_data_l (m1\<lparr>lp := 1\<rparr>) = Inr demo_raw_patch"
    by (rule patch_data_l_demo_raw) (simp_all add: f1)
  have w1: "write_views (gen_data_views demo_raw_model) s2 (map fst demo_raw_patch)
      demo_raw_table = demo_raw_overwritten"
    by (rule write_views_demo_raw [OF v2]) (rule demo_raw_model_fields)
  have u1: "uptake_callback m1 1 = Inr m2"
    using uptake_callback_no_selection [OF f1(4) p1, of s2] s2
    by (simp add: f1 w1 m2_def)
  have f2: "dfs m2 = Some demo_raw_overwritten" "data m2 = s2"
      "data_views m2 = gen_data_views demo_raw_model" "selected m2 = []"
    by (simp_all add: m2_def f1)
  from cds_patch_demo_raw [OF v2] obtain s3 where
    s3: "cds_patch assign_array s2 demo_raw_patch = Inr s3"
    and v3: "cols s3 ''L_x'' = Some [Fin 3]" "cols s3 ''L_y'' = Some [Fin 4]"
      "cols s3 ''L_nx'' = Some [Fin 1]" "cols s3 ''L_ny'' = Some [Fin 1]"
      "cols s3 ''L_n'' = Some [Fin 2]"
    by blast
  define m3 where "m3 = m2\<lparr>lp := 1 / 2, data := s3, dfs := Some demo_raw_overwritten\<rparr>"
  have p2: "patch_data_l (m2\<lparr>lp := 1 / 2\<rparr>) = Inr demo_raw_patch"
    by (rule patch_data_l_overwritten) (simp_all add: f2)
  have w2: "write_views (gen_data_views demo_raw_model) s3 (map fst demo_raw_patch)
      demo_raw_overwritten = demo_raw_overwritten"
    by (rule write_views_overwritten [OF v3]) (rule demo_raw_model_fields)
  have u2: "uptake_callback m2 (1 / 2) = Inr m3"
    using uptake_callback_no_selection [OF f2(4) p2, of s3] s3
    by (simp add: f2 w2 m3_def)
  have f3: "df m3 = demo_raw" "iso_type m3 = None" "t_abs m3 = 303" "t_tol m3 = 10"
      "g1 m3 = ''propane''" "g2 m3 = ''propene''" "lp m3 = 1 / 2" "p1 m3 = 1 / 2" "p2 m3 = 5"
      "data m3 = s3"
    by (simp_all add: m3_def m2_def m1_def demo_raw_model_fields)
  define m4 where "m4 = m3\<lparr>dfs := Some demo_raw_table, data := demo_raw_data,
      data_views := gen_data_views m3\<rparr>"
  have c2: "calculate m3 = Inr m4"
    unfolding m4_def by (rule calculate_demo_raw) (rule f3)+
  have f4: "data m4 = demo_raw_data" "df m4 = df m3" "iso_type m4 = iso_type m3"
      "t_abs m4 = t_abs m3" "t_tol m4 = t_tol m3" "g1 m4 = g1 m3" "g2 m4 = g2 m3"
      "lp m4 = lp m3" "p1 m4 = p1 m3" "p2 m4 = p2 m3"
    by (simp_all add: m4_def)
  show ?thesis
    apply (rule exI [of _ m1], rule exI [of _ m2], rule exI [of _ m3], rule exI [of _ m4])
    apply (simp add: c1 u1 u2 c2 f1 f2 f3 f4 v2 v3 demo_raw_data_cols)
    done
qed

section \<open>The working-capacity patch against the full recompute\<close>

lemma patch_data_w_demo:
  "patch_data_w demo_model =
     Inr [(''psa_W'', [Fin 6, NaN]), (''W_x'', [Fin 1, NaN]), (''W_y'', [Fin 3, Fin 6]),
          (''W_nx'', [Fin 3, Fin 1]), (''W_ny'', [Fin 2, Fin 1]), (''W_n'', [Fin 5, Fin 2])]"
  by (simp add: patch_data_w_def demo_model_def demo_base_def demo_table_def demo_col_names
      col_values_def demo_columns_def ebind_def Let_def fsub_def data_col_def demo_data_def)

text \<open>
  Claim C4. The working-capacity patch \<open>patch_data_w\<close> is to give the same
  working-capacity columns and the same screening metric \<open>psa_W\<close> as the full recompute
  \<open>gen_data\<close> with the same parameters. On the snapshot that \<open>gen_data\<close> itself
  computed (pressures 0.5 and 5) the patch reproduces \<open>W_x\<close>, \<open>W_y\<close>, \<open>W_nx\<close>, \<open>W_ny\<close>
  and \<open>W_n\<close>, but its \<open>psa_W\<close> is \<open>(W_y / W_x) * sel\<close> where \<open>gen_data\<close> computes
  \<open>(K_y / W_x) * sel\<close>: 6 against 4 for material \<open>A\<close>.
\<close>

theorem patch_data_w_psa_W_diverges:
  "data demo_model = demo_data \<and> gen_data demo_model = Inr demo_data
   \<and> cols demo_data ''psa_W'' = Some [Fin 4, NaN]
   \<and> (\<exists>pt. patch_data_w demo_model = Inr pt
        \<and> map_of pt ''psa_W'' = Some [Fin 6, NaN]
        \<and> map_of pt ''W_x'' = cols demo_data ''W_x''
        \<and> map_of pt ''W_y'' = cols demo_data ''W_y''
        \<and> map_of pt ''W_nx'' = cols demo_data ''W_nx''
        \<and> map_of pt ''W_ny'' = cols demo_data ''W_ny''
        \<and> map_of pt ''W_n'' = cols demo_data ''W_n'')"
proof -
  have a: "data demo_model = demo_data" by (simp add: demo_model_def)
  have b: "cols demo_data ''psa_W'' = Some [Fin 4, NaN]" by (simp add: demo_data_def)
  show ?thesis
    using a b gen_data_demo by (simp add: patch_data_w_demo demo_data_def)
qed

section \<open>A selection without a common material\<close>

lemma select_data_demo_disjoint:
  "select_data demo_disjoint None 303 10 ''propane'' ''propene'' = None"
  by (simp add: select_data_def demo_disjoint_def truthy_def between_def unique_def Let_def
      del: set_filter)

lemma gen_data_None: "dfs self = None \<Longrightarrow> gen_data self = Inl TypeError"
  by (simp add: gen_data_def)

text \<open>
  Claim C5. When the two adsorbate subsets share no material, \<open>select_data\<close> returns the
  explicit empty result \<open>None\<close>, and a full recompute is to give an empty snapshot, not
  an exception. \<open>select_data\<close> does return \<open>None\<close>; \<open>calculate\<close> stores it in
  \<open>_dfs\<close> and calls \<open>gen_data\<close>, which subscripts it: a \<open>TypeError\<close>.
\<close>

theorem calculate_raises_without_common_material:
  "select_data demo_disjoint None 303 10 ''propane'' ''propene'' = None
   \<and> calculate (demo_model\<lparr>df := demo_disjoint\<rparr>) = Inl TypeError"
proof -
  have "calculate (demo_model\<lparr>df := demo_disjoint\<rparr>) = Inl TypeError"
    by (simp add: calculate_def Let_def demo_model_def demo_base_def
        select_data_demo_disjoint gen_data_None ebind_Inl)
  with select_data_demo_disjoint show ?thesis by simp
qed

section \<open>The error overlay\<close>

lemma family_cases:
  "family x y ex ey = Inr q \<Longrightarrow>
     (isnan x \<or> isnan y \<longrightarrow> q = (Fin 0, Fin 0, Fin 0, Fin 0)) \<and>
     (\<not> (isnan x \<or> isnan y) \<longrightarrow> (\<exists>a b. ex = Inr a \<and> ey = Inr b \<and> q = (x, y, a, b)))"
  by (auto simp: family_def ebind_eq_Inr split: if_splits)

lemma family_total:
  "isnan x \<or> isnan y \<or> cached ex \<and> cached ey \<Longrightarrow> \<exists>q. family x y ex ey = Inr q"
  by (auto simp: family_def cached_def ebind_Inr split: sum.splits)

lemma eadd_eq_Inr: "eadd a b = Inr v \<longleftrightarrow> (\<exists>u w. a = Inr u \<and> b = Inr w \<and> v = fadd u w)"
  by (auto simp: eadd_def ebind_eq_Inr)

lemma cached_eadd: "cached a \<Longrightarrow> cached b \<Longrightarrow> cached (eadd a b)"
  by (auto simp: cached_def eadd_def ebind_Inr split: sum.splits)

lemma row_ready_total: "row_ready self i \<Longrightarrow> \<exists>r. gen_error_row self i = Inr r"
proof -
  assume r: "row_ready self i"
  then obtain m kx ky lx ly wx wy where
    v: "row_vals self i = Inr (m, kx, ky, lx, ly, wx, wy)"
    by (auto simp: row_ready_def split: sum.splits)
  from r v have
    k: "isnan kx \<or> isnan ky \<or>
          cached (dfs_loc self m (''kH_x'', ''err'')) \<and> cached (dfs_loc self m (''kH_y'', ''err''))"
    and l: "isnan lx \<or> isnan ly \<or>
          cached (dfs_loc self m (col_x (lp self), ''err'')) \<and>
          cached (dfs_loc self m (col_y (lp self), ''err''))"
    and w: "isnan wx \<or> isnan wy \<or>
          cached (eadd (dfs_loc self m (col_x (p1 self), ''err''))
                       (dfs_loc self m (col_x (p2 self), ''err''))) \<and>
          cached (eadd (dfs_loc self m (col_y (p1 self), ''err''))
                       (dfs_loc self m (col_y (p2 self), ''err'')))"
    by (auto simp: row_ready_def cached_eadd)
  from family_total [OF k] obtain K where K: "family kx ky
      (dfs_loc self m (''kH_x'', ''err'')) (dfs_loc self m (''kH_y'', ''err'')) = Inr K" ..
  from family_total [OF l] obtain L where L: "family lx ly
      (dfs_loc self m (col_x (lp self), ''err''))
      (dfs_loc self m (col_y (lp self), ''err'')) = Inr L" ..
  from family_total [OF w] obtain W where W: "family wx wy
      (eadd (dfs_loc self m (col_x (p1 self), ''err''))
            (dfs_loc self m (col_x (p2 self), ''err'')))
      (eadd (dfs_loc self m (col_y (p1 self), ''err''))
            (dfs_loc self m (col_y (p2 self), ''err''))) = Inr W" ..
  show ?thesis
    by (simp add: gen_error_row_def v K L W ebind_Inr)
qed

lemma gen_error_row_Inr:
  assumes "gen_error_row self i = Inr r"
    and "row_vals self i = Inr (m, kx, ky, lx, ly, wx, wy)"
  shows "e_mat r = m"
    and "family kx ky (dfs_loc self m (''kH_x'', ''err''))
           (dfs_loc self m (''kH_y'', ''err'')) = Inr (e_K r)"
    and "family lx ly (dfs_loc self m (col_x (lp self), ''err''))
           (dfs_loc self m (col_y (lp self), ''err'')) = Inr (e_L r)"
    and "family wx wy
           (eadd (dfs_loc self m (col_x (p1 self), ''err''))
                 (dfs_loc self m (col_x (p2 self), ''err'')))
           (eadd (dfs_loc self m (col_y (p1 self), ''err''))
                 (dfs_loc self m (col_y (p2 self), ''err''))) = Inr (e_W r)"
  using assms by (auto simp: gen_error_row_def ebind_eq_Inr)

lemma gen_error_Some:
  "gen_error self (Some ixs) = ebind (for_each (gen_error_row self) ixs) (\<lambda>rs. Inr (overlay_of rs))"
  by (simp add: gen_error_def)

lemma part_lengths:
  "length (pt_x q) = 2" "length (pt_y q) = 2" "length (seg_x0 q) = 2"
  "length (seg_y0 q) = 2" "length (seg_x1 q) = 2" "length (seg_y1 q) = 2"
  by (simp_all add: pt_x_def pt_y_def seg_x0_def seg_y0_def seg_x1_def seg_y1_def split: prod.splits)

lemma pair_at_over:
  "(\<And>q. length (part q) = 2) \<Longrightarrow> j < length rs \<Longrightarrow> pair_at j (over fam part rs) = part (fam (rs ! j))"
  unfolding over_def by (rule pair_at_concat) simp_all

lemma terms_segments:
  "[Some (pt_x q), Some (pt_y q), Some (seg_x0 q), Some (seg_y0 q), Some (seg_x1 q), Some (seg_y1 q)]
     = (case q of (x, y, ex, ey) \<Rightarrow> error_bars x y ex ey)"
  by (simp add: pt_x_def pt_y_def seg_x0_def seg_y0_def seg_x1_def seg_y1_def error_bars_def
      split: prod.splits)

lemma family_at_overlay:
  assumes "j < length rs"
  shows "family_at ''K'' (overlay_of rs) j = (case e_K (rs ! j) of (x, y, ex, ey) \<Rightarrow> error_bars x y ex ey)"
    and "family_at ''L'' (overlay_of rs) j = (case e_L (rs ! j) of (x, y, ex, ey) \<Rightarrow> error_bars x y ex ey)"
    and "family_at ''W'' (overlay_of rs) j = (case e_W (rs ! j) of (x, y, ex, ey) \<Rightarrow> error_bars x y ex ey)"
  unfolding terms_segments [symmetric]
  using assms by (simp_all add: family_at_def overlay_of_def pair_at_over part_lengths)

lemma labels_overlay:
  "j < length rs \<Longrightarrow> pair_at j (labels (overlay_of rs)) = [e_mat (rs ! j), e_mat (rs ! j)]"
  by (simp add: overlay_of_def pair_at_concat)

lemma error_bars_zero:
  "error_bars (Fin 0) (Fin 0) (Fin 0) (Fin 0) = replicate 6 (Some [Fin 0, Fin 0])"
  by (simp add: error_bars_def fsub_def numeral_eq_Suc)

text \<open>
  Claim C6. For every selected row and each metric family (Henry \<open>K\<close>, uptake \<open>L\<close>,
  working capacity \<open>W\<close>): if either of the row's two values is \<open>nan\<close>, the overlay has
  0 for both values and both error terms of that family (all six pairs are zero), the
  label is still recorded, and nothing is raised; else the error terms are those of
  the per-material cache, the working-capacity error being the sum of the errors at the
  two boundary pressures. Generation succeeds for every selection whose rows are in the
  snapshot and whose families without \<open>nan\<close> have their error terms cached.
\<close>

theorem gen_error_nan_guard:
  assumes ready: "list_all (row_ready self) ixs"
  shows "\<exists>out. gen_error self (Some ixs) = Inr out \<and>
     (\<forall>j<length ixs. \<forall>m kx ky lx ly wx wy.
        row_vals self (ixs ! j) = Inr (m, kx, ky, lx, ly, wx, wy) \<longrightarrow>
          pair_at j (labels out) = [m, m]
        \<and> (isnan kx \<or> isnan ky \<longrightarrow>
              family_at ''K'' out j = replicate 6 (Some [Fin 0, Fin 0]))
        \<and> (\<not> (isnan kx \<or> isnan ky) \<longrightarrow>
              (\<exists>ex ey. dfs_loc self m (''kH_x'', ''err'') = Inr ex
                 \<and> dfs_loc self m (''kH_y'', ''err'') = Inr ey
                 \<and> family_at ''K'' out j = error_bars kx ky ex ey))
        \<and> (isnan lx \<or> isnan ly \<longrightarrow>
              family_at ''L'' out j = replicate 6 (Some [Fin 0, Fin 0]))
        \<and> (\<not> (isnan lx \<or> isnan ly) \<longrightarrow>
              (\<exists>ex ey. dfs_loc self m (col_x (lp self), ''err'') = Inr ex
                 \<and> dfs_loc self m (col_y (lp self), ''err'') = Inr ey
                 \<and> family_at ''L'' out j = error_bars lx ly ex ey))
        \<and> (isnan wx \<or> isnan wy \<longrightarrow>
              family_at ''W'' out j = replicate 6 (Some [Fin 0, Fin 0]))
        \<and> (\<not> (isnan wx \<or> isnan wy) \<longrightarrow>
              (\<exists>ex1 ex2 ey1 ey2. dfs_loc self m (col_x (p1 self), ''err'') = Inr ex1
                 \<and> dfs_loc self m (col_x (p2 self), ''err'') = Inr ex2
                 \<and> dfs_loc self m (col_y (p1 self), ''err'') = Inr ey1
                 \<and> dfs_loc self m (col_y (p2 self), ''err'') = Inr ey2
                 \<and> family_at ''W'' out j = error_bars wx wy (fadd ex1 ex2) (fadd ey1 ey2))))"
proof -
  from ready have "list_all (\<lambda>i. \<exists>r. gen_error_row self i = Inr r) ixs"
    by (auto simp: list_all_iff dest: row_ready_total)
  from for_each_total [OF this] obtain rs where
    rs: "for_each (gen_error_row self) ixs = Inr rs" ..
  have out: "gen_error self (Some ixs) = Inr (overlay_of rs)"
    by (simp add: gen_error_Some rs ebind_Inr)
  from for_each_Inr [OF rs] have len: "length rs = length ixs"
    and nth: "\<And>j. j < length ixs \<Longrightarrow> gen_error_row self (ixs ! j) = Inr (rs ! j)"
    by auto
  have "pair_at j (labels (overlay_of rs)) = [m, m]
        \<and> (isnan kx \<or> isnan ky \<longrightarrow>
              family_at ''K'' (overlay_of rs) j = replicate 6 (Some [Fin 0, Fin 0]))
        \<and> (\<not> (isnan kx \<or> isnan ky) \<longrightarrow>
              (\<exists>ex ey. dfs_loc self m (''kH_x'', ''err'') = Inr ex
                 \<and> dfs_loc self m (''kH_y'', ''err'') = Inr ey
                 \<and> family_at ''K'' (overlay_of rs) j = error_bars kx ky ex ey))
        \<and> (isnan lx \<or> isnan ly \<longrightarrow>
              family_at ''L'' (overlay_of rs) j = replicate 6 (Some [Fin 0, Fin 0]))
        \<and> (\<not> (isnan lx \<or> isnan ly) \<longrightarrow>
              (\<exists>ex ey. dfs_loc self m (col_x (lp self), ''err'') = Inr ex
                 \<and> dfs_loc self m (col_y (lp self), ''err'') = Inr ey
                 \<and> family_at ''L'' (overlay_of rs) j = error_bars lx ly ex ey))
        \<and> (isnan wx \<or> isnan wy \<longrightarrow>
              family_at ''W'' (overlay_of rs) j = replicate 6 (Some [Fin 0, Fin 0]))
        \<and> (\<not> (isnan wx \<or> isnan wy) \<longrightarrow>
              (\<exists>ex1 ex2 ey1 ey2. dfs_loc self m (col_x (p1 self), ''err'') = Inr ex1
                 \<and> dfs_loc self m (col_x (p2 self), ''err'') = Inr ex2
                 \<and> dfs_loc self m (col_y (p1 self), ''err'') = Inr ey1
                 \<and> dfs_loc self m (col_y (p2 self), ''err'') = Inr ey2
                 \<and> family_at ''W'' (overlay_of rs) j
                      = error_bars wx wy (fadd ex1 ex2) (fadd ey1 ey2)))"
    if j: "j < length ixs" and v: "row_vals self (ixs ! j) = Inr (m, kx, ky, lx, ly, wx, wy)"
    for j m kx ky lx ly wx wy
  proof -
    from j len have jr: "j < length rs" by simp
    note row = gen_error_row_Inr [OF nth [OF j] v]
    note fam = family_at_overlay [OF jr]
    have lab: "pair_at j (labels (overlay_of rs)) = [m, m]"
      using labels_overlay [OF jr] row(1) by simp
    have K0: "isnan kx \<or> isnan ky \<longrightarrow>
        family_at ''K'' (overlay_of rs) j = replicate 6 (Some [Fin 0, Fin 0])"
      using family_cases [OF row(2)] fam(1) by (auto simp: error_bars_zero)
    have K1: "\<not> (isnan kx \<or> isnan ky) \<longrightarrow>
        (\<exists>ex ey. dfs_loc self m (''kH_x'', ''err'') = Inr ex
           \<and> dfs_loc self m (''kH_y'', ''err'') = Inr ey
           \<and> family_at ''K'' (overlay_of rs) j = error_bars kx ky ex ey)"
      using family_cases [OF row(2)] fam(1) by auto
    have L0: "isnan lx \<or> isnan ly \<longrightarrow>
        family_at ''L'' (overlay_of rs) j = replicate 6 (Some [Fin 0, Fin 0])"
      using family_cases [OF row(3)] fam(2) by (auto simp: error_bars_zero)
    have L1: "\<not> (isnan lx \<or> isnan ly) \<longrightarrow>
        (\<exists>ex ey. dfs_loc self m (col_x (lp self), ''err'') = Inr ex
           \<and> dfs_loc self m (col_y (lp self), ''err'') = Inr ey
           \<and> family_at ''L'' (overlay_of rs) j = error_bars lx ly ex ey)"
      using family_cases [OF row(3)] fam(2) by auto
    have W0: "isnan wx \<or> isnan wy \<longrightarrow>
        family_at ''W'' (overlay_of rs) j = replicate 6 (Some [Fin 0, Fin 0])"
      using family_cases [OF row(4)] fam(3) by (auto simp: error_bars_zero)
    have W1: "\<not> (isnan wx \<or> isnan wy) \<longrightarrow>
        (\<exists>ex1 ex2 ey1 ey2. dfs_loc self m (col_x (p1 self), ''err'') = Inr ex1
           \<and> dfs_loc self m (col_x (p2 self), ''err'') = Inr ex2
           \<and> dfs_loc self m (col_y (p1 self), ''err'') = Inr ey1
           \<and> dfs_loc self m (col_y (p2 self), ''err'') = Inr ey2
           \<and> family_at ''W'' (overlay_of rs) j
                = error_bars wx wy (fadd ex1 ex2) (fadd ey1 ey2))"
      using family_cases [OF row(4)] fam(3) by (auto simp: eadd_eq_Inr)
    from lab K0 K1 L0 L1 W0 W1 show ?thesis by (intro conjI)
  qed
  with out show ?thesis by blast
qed

lemma row_vals_demo:
  "row_vals demo_model 1 = Inr (''B'', Fin 4, Fin 2, NaN, Fin 3, NaN, Fin 6)"
  "row_vals demo_model (Suc 0) = Inr (''B'', Fin 4, Fin 2, NaN, Fin 3, NaN, Fin 6)"
  "row_vals demo_model 0 = Inr (''A'', Fin 1, Fin 2, Fin 1, Fin 1, Fin 1, Fin 3)"
  by (simp_all add: row_vals_def data_at_def data_col_def item_def demo_model_def
      demo_data_def ebind_def)

lemma dfs_loc_demo:
  "dfs_loc demo_model ''B'' (''kH_x'', ''err'') = Inr (Fin 1)"
  "dfs_loc demo_model ''B'' (''kH_y'', ''err'') = Inr (Fin (1 / 2))"
  "dfs_loc demo_model ''A'' (''kH_x'', ''err'') = Inr (Fin (1 / 2))"
  "dfs_loc demo_model ''A'' (''kH_y'', ''err'') = Inr (Fin (1 / 4))"
  "dfs_loc demo_model ''A'' (''0.5_x'', ''err'') = Inr (Fin (1 / 10))"
  "dfs_loc demo_model ''A'' (''0.5_y'', ''err'') = Inr (Fin (1 / 5))"
  "dfs_loc demo_model ''A'' (''5.0_x'', ''err'') = Inr (Fin (1 / 10))"
  "dfs_loc demo_model ''A'' (''5.0_y'', ''err'') = Inr (Fin (1 / 5))"
  by (simp_all add: dfs_loc_def loc_def col_values_def item_def demo_model_def demo_base_def
      demo_table_def demo_columns_def ebind_def)

lemma demo_params: "lp demo_model = 1 / 2" "p1 demo_model = 1 / 2" "p2 demo_model = 5"
  by (simp_all add: demo_model_def demo_base_def)

lemma row_ready_demo_rows: "row_ready demo_model (Suc 0)" "row_ready demo_model 0"
  by (simp_all add: row_ready_def row_vals_demo dfs_loc_demo demo_params demo_col_names
      cached_def isnan_def)

lemma row_ready_demo: "list_all (row_ready demo_model) [1, 0]"
  by (simp add: row_ready_demo_rows)

theorem gen_error_nan_guard_witness:
  "list_all (row_ready demo_model) [1, 0]
   \<and> row_vals demo_model 1 = Inr (''B'', Fin 4, Fin 2, NaN, Fin 3, NaN, Fin 6)
   \<and> (\<exists>out. gen_error demo_model (Some [1, 0]) = Inr out
        \<and> pair_at 0 (labels out) = [''B'', ''B'']
        \<and> family_at ''L'' out 0 = replicate 6 (Some [Fin 0, Fin 0])
        \<and> family_at ''W'' out 0 = replicate 6 (Some [Fin 0, Fin 0])
        \<and> family_at ''K'' out 0 = error_bars (Fin 4) (Fin 2) (Fin 1) (Fin (1 / 2)))"
  using gen_error_nan_guard [OF row_ready_demo]
  apply (elim exE conjE)
  subgoal for out
    apply (drule spec [of _ 0])
    apply (simp add: row_vals_demo isnan_def row_ready_demo_rows)
    apply (auto simp: dfs_loc_demo)
    done
  done

section \<open>The uptake-scoped overlay patch\<close>

lemma gen_error_total:
  "list_all (row_ready self) ixs \<Longrightarrow> \<exists>out. gen_error self (Some ixs) = Inr out"
proof -
  assume "list_all (row_ready self) ixs"
  then have "list_all (\<lambda>i. \<exists>r. gen_error_row self i = Inr r) ixs"
    by (auto simp: list_all_iff dest: row_ready_total)
  from for_each_total [OF this] show ?thesis
    by (auto simp: gen_error_Some ebind_Inr)
qed

lemma apply_entries_list_total:
  "list_all (\<lambda>kv. cols s (fst kv) \<noteq> None) p \<Longrightarrow> \<exists>s'. apply_entries assign_list s p = Inr s'"
proof (induction p arbitrary: s)
  case Nil
  then show ?case by simp
next
  case (Cons kv p)
  obtain k v where kv: "kv = (k, v)" by (cases kv)
  from Cons.prems kv obtain old where old: "cols s k = Some old" by auto
  have "list_all (\<lambda>kv. cols (s\<lparr>cols := (cols s)(k \<mapsto> v)\<rparr>) (fst kv) \<noteq> None) p"
    using Cons.prems by (auto simp: list_all_iff)
  from Cons.IH [OF this] kv old show ?case
    by (simp add: assign_list_def ebind_Inr)
qed

lemma patch_error_l_keys:
  "patch_error_l self ixs = Inr pt \<Longrightarrow> map fst pt = L_error_keys"
  by (auto simp: patch_error_l_def scoped_patch_def L_error_keys_def ebind_eq_Inr
      split: option.splits)

lemma gen_error_keys:
  assumes "gen_error self ixs = Inr e" and "k \<in> set L_error_keys"
  shows "cols e k \<noteq> None"
proof (cases ixs)
  case None
  with assms show ?thesis by (auto simp: gen_error_def L_error_keys_def)
next
  case (Some a)
  with assms show ?thesis
    by (auto simp: gen_error_def overlay_of_def L_error_keys_def ebind_eq_Inr)
qed

text \<open>
  Claim C7. After the full overlay generator \<open>gen_error\<close> has run on a selection, the
  uptake-scoped regeneration \<open>patch_error_l\<close> (for any uptake pressure, snapshot and
  indices) applies to the overlay and leaves the labels, the working-capacity fields
  \<open>W_x\<close>, \<open>W_y\<close>, \<open>W_x0\<close>, \<open>W_y0\<close>, \<open>W_x1\<close>, \<open>W_y1\<close> and the Henry fields as they were:
  the patch has the uptake family's keys only.
\<close>

theorem patch_error_l_frame:
  assumes e: "gen_error self ixs = Inr e"
    and pt: "patch_error_l self' ixs' = Inr pt"
  shows "\<exists>e'. cds_patch assign_list e pt = Inr e'
      \<and> labels e' = labels e
      \<and> cols e' ''W_x'' = cols e ''W_x'' \<and> cols e' ''W_y'' = cols e ''W_y''
      \<and> cols e' ''W_x0'' = cols e ''W_x0'' \<and> cols e' ''W_y0'' = cols e ''W_y0''
      \<and> cols e' ''W_x1'' = cols e ''W_x1'' \<and> cols e' ''W_y1'' = cols e ''W_y1''
      \<and> cols e' ''K_x'' = cols e ''K_x'' \<and> cols e' ''K_y'' = cols e ''K_y''
      \<and> cols e' ''K_x0'' = cols e ''K_x0'' \<and> cols e' ''K_y0'' = cols e ''K_y0''
      \<and> cols e' ''K_x1'' = cols e ''K_x1'' \<and> cols e' ''K_y1'' = cols e ''K_y1''"
proof -
  note keys = patch_error_l_keys [OF pt]
  have ok: "list_all (\<lambda>kv. cols e (fst kv) \<noteq> None) pt"
  proof -
    have "\<forall>k \<in> set (map fst pt). cols e k \<noteq> None"
      unfolding keys using gen_error_keys [OF e] by blast
    then show ?thesis by (simp add: list_all_iff)
  qed
  from apply_entries_list_total [OF ok] obtain e' where
    run: "apply_entries assign_list e pt = Inr e'" ..
  have patched: "cds_patch assign_list e pt = Inr e'"
    using run ok by (simp add: cds_patch_def)
  have dom: "fst ` set pt = set L_error_keys"
    using keys by (metis set_map)
  from apply_entries_frame [OF run] have lab: "labels e' = labels e"
    and frame: "\<And>k. k \<notin> set L_error_keys \<Longrightarrow> cols e' k = cols e k"
    using dom by auto
  have eqs: "cols e' ''W_x'' = cols e ''W_x''" "cols e' ''W_y'' = cols e ''W_y''"
      "cols e' ''W_x0'' = cols e ''W_x0''" "cols e' ''W_y0'' = cols e ''W_y0''"
      "cols e' ''W_x1'' = cols e ''W_x1''" "cols e' ''W_y1'' = cols e ''W_y1''"
      "cols e' ''K_x'' = cols e ''K_x''" "cols e' ''K_y'' = cols e ''K_y''"
      "cols e' ''K_x0'' = cols e ''K_x0''" "cols e' ''K_y0'' = cols e ''K_y0''"
      "cols e' ''K_x1'' = cols e ''K_x1''" "cols e' ''K_y1'' = cols e ''K_y1''"
    by (rule frame, simp add: L_error_keys_def)+
  show ?thesis
    by (intro exI conjI) (rule patched lab eqs)+
qed

lemma patch_error_l_demo:
  "\<exists>pt. patch_error_l (demo_model\<lparr>lp := 1\<rparr>) (Some [1, 0]) = Inr pt
      \<and> map_of pt ''L_x0'' = Some [Fin 0, Fin 0, Fin (7 / 10), Fin 1]"
  by (simp add: patch_error_l_def patch_error_l_row_def data_at_def data_col_def item_def
      demo_model_def demo_data_def demo_base_def ebind_def isnan_def dfs_loc_third_def
      loc_group_def demo_table_def demo_columns_def demo_col_names scoped_patch_def
      pt_x_def pt_y_def seg_x0_def seg_y0_def seg_x1_def seg_y1_def fsub_def)

theorem patch_error_l_frame_witness:
  "\<exists>e pt e'. gen_error demo_model (Some [1, 0]) = Inr e
      \<and> patch_error_l (demo_model\<lparr>lp := 1\<rparr>) (Some [1, 0]) = Inr pt
      \<and> map_of pt ''L_x0'' = Some [Fin 0, Fin 0, Fin (7 / 10), Fin 1]
      \<and> cds_patch assign_list e pt = Inr e'
      \<and> labels e' = labels e
      \<and> cols e' ''W_x'' = cols e ''W_x'' \<and> cols e' ''W_y'' = cols e ''W_y''
      \<and> cols e' ''W_x0'' = cols e ''W_x0'' \<and> cols e' ''W_y0'' = cols e ''W_y0''
      \<and> cols e' ''W_x1'' = cols e ''W_x1'' \<and> cols e' ''W_y1'' = cols e ''W_y1''
      \<and> cols e' ''K_x'' = cols e ''K_x'' \<and> cols e' ''K_y'' = cols e ''K_y''
      \<and> cols e' ''K_x0'' = cols e ''K_x0'' \<and> cols e' ''K_y0'' = cols e ''K_y0''
      \<and> cols e' ''K_x1'' = cols e ''K_x1'' \<and> cols e' ''K_y1'' = cols e ''K_y1''"
proof -
  from gen_error_total [OF row_ready_demo] obtain e where
    e: "gen_error demo_model (Some [1, 0]) = Inr e" ..
  from patch_error_l_demo obtain pt where
    pt: "patch_error_l (demo_model\<lparr>lp := 1\<rparr>) (Some [1, 0]) = Inr pt"
    and v: "map_of pt ''L_x0'' = Some [Fin 0, Fin 0, Fin (7 / 10), Fin 1]"
    by blast
  from patch_error_l_frame [OF e pt] obtain e' where
    r: "cds_patch assign_list e pt = Inr e'" "labels e' = labels e"
      "cols e' ''W_x'' = cols e ''W_x''" "cols e' ''W_y'' = cols e ''W_y''"
      "cols e' ''W_x0'' = cols e ''W_x0''" "cols e' ''W_y0'' = cols e ''W_y0''"
      "cols e' ''W_x1'' = cols e ''W_x1''" "cols e' ''W_y1'' = cols e ''W_y1''"
      "cols e' ''K_x'' = cols e ''K_x''" "cols e' ''K_y'' = cols e ''K_y''"
      "cols e' ''K_x0'' = cols e ''K_x0''" "cols e' ''K_y0'' = cols e ''K_y0''"
      "cols e' ''K_x1'' = cols e ''K_x1''" "cols e' ''K_y1'' = cols e ''K_y1''"
    by blast
  show ?thesis
    by (intro exI conjI) (rule e pt v r)+
qed

section \<open>The isotherm loader\<close>

lemma median_pressure_length: "length (median_pressure loading) = length loading + 1"
  by (simp add: median_pressure_def)

lemma populate_slot_first:
  assumes "dfs_loc_seq self m (g, ''mL'') = Inr loading"
  shows "\<exists>rest e. populate_slot load self m sl g =
     (\<lparr>cb_slot = sl,
       cb_iso = \<lparr>iso_label = ''median'', iso_loading = loading,
                 iso_pressure = median_pressure loading, iso_doi = '''', iso_temp = ''''\<rparr>,
       cb_color = Some ''k''\<rparr> # rest, e)"
  using assms by (simp add: populate_slot_def Let_def split: sum.splits)

lemma demo_labels: "item (labels (data demo_model)) 0 = Inr ''A''"
  by (simp add: item_def demo_model_def demo_data_def)

lemma demo_loading_A:
  "dfs_loc_seq demo_model ''A'' (''propane'', ''mL'') = Inr [Fin 1, Fin 2]"
  by (simp add: dfs_loc_seq_def loc_seq_def item_def demo_model_def demo_base_def demo_table_def)

text \<open>
  Claim C10. For a selected row and either adsorbate slot, when the row's label and its
  median loadings are found, the first callback \<open>populate_isos\<close> hands over is the
  median curve in the sentinel colour \<open>k\<close>, and it pairs the loading sequence of length
  \<open>n\<close> with the pressures \<open>0, 0.5, \<dots>, 0.5 n\<close>: the pressure sequence is one element
  longer than the loading sequence.
\<close>

theorem median_curve_pressure_one_longer:
  assumes m: "item (labels (data self)) i = Inr m"
    and slot: "a = ''g1'' \<and> g = g1 self \<and> sl = G1 \<or> a = ''g2'' \<and> g = g2 self \<and> sl = G2"
    and loading: "dfs_loc_seq self m (g, ''mL'') = Inr loading"
  shows "\<exists>cb rest e. populate_isos load self i a = (cb # rest, e)
      \<and> cb_slot cb = sl \<and> cb_color cb = Some ''k''
      \<and> iso_label (cb_iso cb) = ''median''
      \<and> iso_loading (cb_iso cb) = loading
      \<and> iso_pressure (cb_iso cb) = map (\<lambda>k. Fin (real k * 0.5)) [0..<length loading + 1]
      \<and> length (iso_pressure (cb_iso cb)) = length (iso_loading (cb_iso cb)) + 1"
proof -
  from populate_slot_first [OF loading] obtain rest e where
    p: "populate_slot load self m sl g =
     (\<lparr>cb_slot = sl,
       cb_iso = \<lparr>iso_label = ''median'', iso_loading = loading,
                 iso_pressure = median_pressure loading, iso_doi = '''', iso_temp = ''''\<rparr>,
       cb_color = Some ''k''\<rparr> # rest, e)"
    by blast
  from slot have "populate_isos load self i a = populate_slot load self m sl g"
    using m by (auto simp: populate_isos_def)
  with p show ?thesis
    by (simp add: median_pressure_def)
qed

theorem median_curve_pressure_one_longer_witness:
  "item (labels (data demo_model)) 0 = Inr ''A''
   \<and> g1 demo_model = ''propane''
   \<and> dfs_loc_seq demo_model ''A'' (''propane'', ''mL'') = Inr [Fin 1, Fin 2]
   \<and> (\<exists>cb rest e. populate_isos demo_load demo_model 0 ''g1'' = (cb # rest, e)
        \<and> iso_loading (cb_iso cb) = [Fin 1, Fin 2]
        \<and> iso_pressure (cb_iso cb) = [Fin 0, Fin (1 / 2), Fin 1]
        \<and> length (iso_pressure (cb_iso cb)) = length (iso_loading (cb_iso cb)) + 1)"
proof -
  have g: "g1 demo_model = ''propane''" by (simp add: demo_model_def demo_base_def)
  have "''g1'' = ''g1'' \<and> ''propane'' = g1 demo_model \<and> G1 = G1
      \<or> ''g1'' = ''g2'' \<and> ''propane'' = g2 demo_model \<and> G1 = G2"
    using g by simp
  from median_curve_pressure_one_longer [OF demo_labels this demo_loading_A, of demo_load]
  obtain cb rest e where r: "populate_isos demo_load demo_model 0 ''g1'' = (cb # rest, e)"
      "iso_loading (cb_iso cb) = [Fin 1, Fin 2]"
      "iso_pressure (cb_iso cb) = map (\<lambda>k. Fin (real k * 0.5)) [0..<length [Fin 1, Fin 2] + 1]"
      "length (iso_pressure (cb_iso cb)) = length (iso_loading (cb_iso cb)) + 1"
    by blast
  have "map (\<lambda>k. Fin (real k * 0.5)) [0..<length [Fin 1, Fin 2] + 1] = [Fin 0, Fin (1 / 2), Fin 1]"
    by (simp add: upt_rec)
  with r(3) have p: "iso_pressure (cb_iso cb) = [Fin 0, Fin (1 / 2), Fin 1]" by simp
  show ?thesis
    by (intro exI conjI) (rule demo_labels g demo_loading_A r(1) r(2) p r(4))+
qed

text \<open>
  The hypotheses above ask for the median loadings to be found. A table that
  \<open>select_data\<close> builds has the columns (name with suffix, statistic) only, so after a
  full recompute the read of \<open>(adsorbate, 'mL')\<close> raises and the loader queues nothing.
\<close>

lemma merge_mat_seq_columns: "seq_columns (merge_mat l r) = []"
  by (simp add: merge_mat_def Let_def)

lemma if_None_Some: "(if c then None else Some x) = Some y \<Longrightarrow> y = x"
  by (simp split: if_splits)

lemma select_data_seq_columns:
  "select_data d ty ta tt a b = Some tb \<Longrightarrow> seq_columns tb = []"
  unfolding select_data_def Let_def
  by (drule if_None_Some) (simp only: merge_mat_seq_columns)

lemma populate_isos_without_seq_columns:
  assumes "dfs self = Some tb" and "seq_columns tb = []"
  shows "fst (populate_isos load self i a) = []"
proof -
  have k: "dfs_loc_seq self m key = Inl KeyError" for m key
    using assms by (simp add: dfs_loc_seq_def loc_seq_def split: option.splits)
  have "fst (populate_slot load self m sl g) = []" for m sl g
    by (simp add: populate_slot_def k)
  then show ?thesis
    by (cases "item (labels (data self)) i") (simp_all add: populate_isos_def)
qed


lemma populate_isos_after_calculate:
  assumes "calculate self = Inr self'"
  shows "fst (populate_isos load self' i a) = []"
proof -
  let ?sel = "select_data (df self) (iso_type self) (t_abs self) (t_tol self) (g1 self) (g2 self)"
  from assms obtain d where
    d: "gen_data (self\<lparr>dfs := ?sel\<rparr>) = Inr d" and s: "dfs self' = ?sel"
    unfolding calculate_def Let_def ebind_eq_Inr by auto
  from d obtain tb where tb: "?sel = Some tb"
    by (cases ?sel) (simp_all add: gen_data_None)
  have "dfs self' = Some tb" using s tb by simp
  from populate_isos_without_seq_columns [OF this select_data_seq_columns [OF tb]]
  show ?thesis .
qed

section \<open>Delivery of the curves\<close>

lemma iso_update_without_color:
  "iso_update_g1 self i None = (self, Some AttributeError)"
  "iso_update_g2 self i None = (self, Some AttributeError)"
  by (simp_all add: iso_update_g1_def iso_update_g2_def pick_color_def next_c_cyc_def)

lemma iso_update_with_color:
  "c \<noteq> [] \<Longrightarrow> g1_iso_sel (fst (iso_update_g1 self i (Some c))) = g1_iso_sel self @ [as_curve i c]"
  "c \<noteq> [] \<Longrightarrow> g2_iso_sel (fst (iso_update_g2 self i (Some c))) = g2_iso_sel self @ [as_curve i c]"
  by (simp_all add: iso_update_g1_def iso_update_g2_def pick_color_def Let_def
      split: sum.splits)

lemma reset_bottom_sel:
  "g1_iso_sel (reset_bottom self) = []" "g2_iso_sel (reset_bottom self) = []"
  "selected (reset_bottom self) = selected self" "data (reset_bottom self) = data self"
  "dfs (reset_bottom self) = dfs self" "g1 (reset_bottom self) = g1 self"
  "g2 (reset_bottom self) = g2 self"
  by (simp_all add: reset_bottom_def gen_iso_dict_def)

lemma selection_callback_resets:
  "selection_callback self new = Inr (self', ths) \<Longrightarrow>
     g1_iso_sel self' = [] \<and> g2_iso_sel self' = [] \<and> selected self' = new
     \<and> data self' = data self \<and> dfs self' = dfs self"
  by (auto simp: selection_callback_def Let_def ebind_eq_Inr reset_bottom_sel split: if_splits)

lemma gen_error_row_selected:
  "gen_error_row (self\<lparr>selected := new\<rparr>) i = gen_error_row self i"
  by (simp add: gen_error_row_def row_vals_def data_at_def data_col_def dfs_loc_def)

lemma gen_error_selected: "gen_error (self\<lparr>selected := new\<rparr>) ixs = gen_error self ixs"
proof -
  have "gen_error_row (self\<lparr>selected := new\<rparr>) = gen_error_row self"
    by (rule ext) (rule gen_error_row_selected)
  then show ?thesis by (cases ixs) (simp_all add: gen_error_def)
qed

lemma selection_callback_demo:
  "\<exists>m. selection_callback demo_model [0] = Inr (m, [(0, ''g1''), (0, ''g2'')])
     \<and> data m = demo_data \<and> dfs m = Some demo_table \<and> g1 m = ''propane''
     \<and> g1_iso_sel m = [] \<and> s_dash m = demo_dash"
proof -
  have "list_all (row_ready demo_model) [0]" by (simp add: row_ready_demo_rows)
  from gen_error_total [OF this] obtain e where e: "gen_error demo_model (Some [0]) = Inr e" ..
  have "selection_callback demo_model [0]
      = Inr (reset_bottom (demo_model\<lparr>selected := [0], errors := e\<rparr>),
             [(0, ''g1''), (0, ''g2'')])"
    by (simp add: selection_callback_def Let_def gen_error_selected e ebind_Inr)
  then show ?thesis
    by (simp add: reset_bottom_def gen_iso_dict_def demo_model_def demo_base_def demo_dash_def)
qed

lemma populate_g1_demo:
  assumes "data m = demo_data" and "dfs m = Some demo_table" and "g1 m = ''propane''"
  shows "populate_isos demo_load m 0 ''g1'' =
     ([\<lparr>cb_slot = G1, cb_iso = demo_median_A, cb_color = Some ''k''\<rparr>,
       \<lparr>cb_slot = G1, cb_iso = demo_parsed ''a1'', cb_color = None\<rparr>], None)"
  using assms
  by (simp add: populate_isos_def populate_slot_def item_def demo_data_def dfs_loc_seq_def
      dfs_loc_refs_def loc_seq_def loc_refs_def demo_table_def median_pressure_def upt_rec
      demo_median_A_def demo_load_def List.map_filter_def Let_def)

lemma gen_error_frame:
  assumes "data a = data b" "dfs a = dfs b" "lp a = lp b" "p1 a = p1 b" "p2 a = p2 b"
  shows "gen_error a ixs = gen_error b ixs"
proof -
  have "gen_error_row a = gen_error_row b"
    by (rule ext) (simp add: gen_error_row_def row_vals_def data_at_def data_col_def
        dfs_loc_def assms)
  then show ?thesis by (cases ixs) (simp_all add: gen_error_def)
qed

text \<open>The state after the first material has been selected.\<close>

lemma after_select_A:
  "\<exists>e. run demo_load demo_system [Select [0]] =
     \<lparr>model = reset_bottom (demo_model\<lparr>selected := [0], errors := e\<rparr>),
      threads = [(0, ''g1''), (0, ''g2'')], queue = []\<rparr>"
proof -
  have "list_all (row_ready demo_model) [0]" by (simp add: row_ready_demo_rows)
  from gen_error_total [OF this] obtain e where e: "gen_error demo_model (Some [0]) = Inr e" ..
  have "selection_callback demo_model [0]
      = Inr (reset_bottom (demo_model\<lparr>selected := [0], errors := e\<rparr>),
             [(0, ''g1''), (0, ''g2'')])"
    by (simp add: selection_callback_def Let_def gen_error_selected e ebind_Inr)
  then have "run demo_load demo_system [Select [0]] =
     \<lparr>model = reset_bottom (demo_model\<lparr>selected := [0], errors := e\<rparr>),
      threads = [(0, ''g1''), (0, ''g2'')], queue = []\<rparr>"
    by (simp add: run_def demo_system_def)
  then show ?thesis by (rule exI)
qed

lemma after_run_A:
  "\<exists>e. run demo_load demo_system [Select [0], Run 0] =
     \<lparr>model = reset_bottom (demo_model\<lparr>selected := [0], errors := e\<rparr>),
      threads = [(0, ''g2'')],
      queue = [\<lparr>cb_slot = G1, cb_iso = demo_median_A, cb_color = Some ''k''\<rparr>,
               \<lparr>cb_slot = G1, cb_iso = demo_parsed ''a1'', cb_color = None\<rparr>]\<rparr>"
proof -
  from after_select_A obtain e where
    s: "run demo_load demo_system [Select [0]] =
     \<lparr>model = reset_bottom (demo_model\<lparr>selected := [0], errors := e\<rparr>),
      threads = [(0, ''g1''), (0, ''g2'')], queue = []\<rparr>" ..
  let ?m = "reset_bottom (demo_model\<lparr>selected := [0], errors := e\<rparr>)"
  have p: "populate_isos demo_load ?m 0 ''g1'' =
     ([\<lparr>cb_slot = G1, cb_iso = demo_median_A, cb_color = Some ''k''\<rparr>,
       \<lparr>cb_slot = G1, cb_iso = demo_parsed ''a1'', cb_color = None\<rparr>], None)"
    by (rule populate_g1_demo)
      (simp_all add: reset_bottom_def demo_model_def demo_base_def)
  have "run demo_load demo_system [Select [0], Run 0]
      = step demo_load (run demo_load demo_system [Select [0]]) (Run 0)"
    by (simp add: run_def)
  also have "\<dots> = \<lparr>model = ?m, threads = [(0, ''g2'')],
      queue = [\<lparr>cb_slot = G1, cb_iso = demo_median_A, cb_color = Some ''k''\<rparr>,
               \<lparr>cb_slot = G1, cb_iso = demo_parsed ''a1'', cb_color = None\<rparr>]\<rparr>"
    by (simp add: s p)
  finally show ?thesis by blast
qed

lemma deliver_median:
  "g1_iso_sel (fst (deliver self \<lparr>cb_slot = G1, cb_iso = i, cb_color = Some ''k''\<rparr>))
     = g1_iso_sel self @ [as_curve i ''k'']"
  by (simp add: deliver_def iso_update_with_color)

lemma deliver_frame:
  "selected (fst (deliver self cb)) = selected self"
  "data (fst (deliver self cb)) = data self"
  "dfs (fst (deliver self cb)) = dfs self"
  "c_cyc (s_dash (fst (deliver self cb))) = c_cyc (s_dash self)"
  by (auto simp: deliver_def iso_update_g1_def iso_update_g2_def pick_color_def next_c_cyc_def
      Let_def split: slot.splits sum.splits option.splits)

lemma deliver_parsed:
  "deliver self \<lparr>cb_slot = G1, cb_iso = i, cb_color = None\<rparr> = (self, Some AttributeError)"
  by (simp add: deliver_def iso_update_without_color)

lemma demo_labels_B: "item (labels (data demo_model)) 1 = Inr ''B''"
  by (simp add: item_def demo_model_def demo_data_def)

lemma demo_loading_B:
  "dfs_loc_seq demo_model ''B'' (''propane'', ''mL'') = Inr [Fin 7, Fin 8, Fin 9]"
  by (simp add: dfs_loc_seq_def loc_seq_def item_def demo_model_def demo_base_def demo_table_def)

text \<open>
  Claim C9. After the median curve, every successfully parsed curve is to be coloured
  with the next colour of the one cyclic palette. In the session below the first
  material is selected, its loader thread for the first slot runs and queues the median
  curve and one parsed curve. The median curve is delivered in the sentinel colour. The
  parsed curve comes without a colour, \<open>iso_update_g1\<close> evaluates \<open>next(self.c_cyc)\<close>
  on the model, which has no such attribute, and raises: the curve is not streamed and
  the dashboard's palette is not advanced.
\<close>

theorem parsed_curve_delivery_raises:
  "queue (run demo_load demo_system [Select [0], Run 0])
     = [\<lparr>cb_slot = G1, cb_iso = demo_median_A, cb_color = Some ''k''\<rparr>,
        \<lparr>cb_slot = G1, cb_iso = demo_parsed ''a1'', cb_color = None\<rparr>]
   \<and> g1_iso_sel (model (run demo_load demo_system [Select [0], Run 0, Tick]))
     = [as_curve demo_median_A ''k'']
   \<and> queue (run demo_load demo_system [Select [0], Run 0, Tick])
     = [\<lparr>cb_slot = G1, cb_iso = demo_parsed ''a1'', cb_color = None\<rparr>]
   \<and> snd (deliver (model (run demo_load demo_system [Select [0], Run 0, Tick]))
           \<lparr>cb_slot = G1, cb_iso = demo_parsed ''a1'', cb_color = None\<rparr>)
     = Some AttributeError
   \<and> g1_iso_sel (model (run demo_load demo_system [Select [0], Run 0, Tick, Tick]))
     = [as_curve demo_median_A ''k'']
   \<and> queue (run demo_load demo_system [Select [0], Run 0, Tick, Tick]) = []
   \<and> c_cyc (s_dash (model (run demo_load demo_system [Select [0], Run 0, Tick, Tick])))
     = c_cyc demo_dash"
proof -
  from after_run_A obtain e where
    s: "run demo_load demo_system [Select [0], Run 0] =
     \<lparr>model = reset_bottom (demo_model\<lparr>selected := [0], errors := e\<rparr>),
      threads = [(0, ''g2'')],
      queue = [\<lparr>cb_slot = G1, cb_iso = demo_median_A, cb_color = Some ''k''\<rparr>,
               \<lparr>cb_slot = G1, cb_iso = demo_parsed ''a1'', cb_color = None\<rparr>]\<rparr>" ..
  let ?s = "run demo_load demo_system [Select [0], Run 0]"
  have t1: "run demo_load demo_system [Select [0], Run 0, Tick] = step demo_load ?s Tick"
    by (simp add: run_def)
  have t2: "run demo_load demo_system [Select [0], Run 0, Tick, Tick]
      = step demo_load (step demo_load ?s Tick) Tick"
    by (simp add: run_def)
  have c: "c_cyc (s_dash (reset_bottom (demo_model\<lparr>selected := [0], errors := e\<rparr>)))
      = c_cyc demo_dash"
    by (simp add: reset_bottom_def demo_model_def demo_base_def)
  show ?thesis
    unfolding t1 t2 s
    by (simp add: deliver_median deliver_parsed deliver_frame reset_bottom_sel c)
qed

text \<open>
  Claim C2, as stated: after material \<open>A\<close> is selected and then \<open>B\<close> before \<open>A\<close>'s curves
  are delivered, no curve of \<open>A\<close> is applied to \<open>B\<close>'s curve set, each emission carrying
  a generation id that is checked on delivery. The callbacks carry no generation id and
  the delivery callbacks check nothing: in the session below \<open>A\<close> (row 0) is selected,
  its loader thread queues the median curve of \<open>A\<close>, \<open>B\<close> (row 1) is selected, and the
  next tick appends the curve with \<open>A\<close>'s loadings to the curve set while \<open>B\<close> is the
  selection.
\<close>

theorem stale_curve_counterexample:
  "selected (model (run demo_load demo_system [Select [0], Run 0, Select [1], Tick])) = [1]
   \<and> item (labels (data demo_model)) 0 = Inr ''A''
   \<and> item (labels (data demo_model)) 1 = Inr ''B''
   \<and> dfs_loc_seq demo_model ''A'' (''propane'', ''mL'') = Inr [Fin 1, Fin 2]
   \<and> dfs_loc_seq demo_model ''B'' (''propane'', ''mL'') = Inr [Fin 7, Fin 8, Fin 9]
   \<and> g1_iso_sel (model (run demo_load demo_system [Select [0], Run 0, Select [1], Tick]))
       = [as_curve demo_median_A ''k'']
   \<and> c_y (as_curve demo_median_A ''k'') = [Fin 1, Fin 2]"
proof -
  from after_run_A obtain e where
    s: "run demo_load demo_system [Select [0], Run 0] =
     \<lparr>model = reset_bottom (demo_model\<lparr>selected := [0], errors := e\<rparr>),
      threads = [(0, ''g2'')],
      queue = [\<lparr>cb_slot = G1, cb_iso = demo_median_A, cb_color = Some ''k''\<rparr>,
               \<lparr>cb_slot = G1, cb_iso = demo_parsed ''a1'', cb_color = None\<rparr>]\<rparr>" ..
  let ?m = "reset_bottom (demo_model\<lparr>selected := [0], errors := e\<rparr>)"
  have "list_all (row_ready demo_model) [1]" by (simp add: row_ready_demo_rows)
  from gen_error_total [OF this] obtain e2 where
    e2: "gen_error demo_model (Some [1]) = Inr e2" ..
  have "gen_error (?m\<lparr>selected := [1]\<rparr>) (Some [1]) = gen_error demo_model (Some [1])"
    by (rule gen_error_frame) (simp_all add: reset_bottom_def)
  with e2 have sel: "selection_callback ?m [1]
      = Inr (reset_bottom (?m\<lparr>selected := [1], errors := e2\<rparr>), [(1, ''g1''), (1, ''g2'')])"
    by (simp add: selection_callback_def Let_def ebind_Inr)
  have r: "run demo_load demo_system [Select [0], Run 0, Select [1], Tick]
      = step demo_load (step demo_load (run demo_load demo_system [Select [0], Run 0])
          (Select [1])) Tick"
    by (simp add: run_def)
  have run: "selected (model (run demo_load demo_system [Select [0], Run 0, Select [1], Tick])) = [1]
      \<and> g1_iso_sel (model (run demo_load demo_system [Select [0], Run 0, Select [1], Tick]))
          = [as_curve demo_median_A ''k'']"
    unfolding r s
    by (simp add: sel [unfolded One_nat_def] deliver_median deliver_frame reset_bottom_sel)
  have y: "c_y (as_curve demo_median_A ''k'') = [Fin 1, Fin 2]"
    by (simp add: as_curve_def demo_median_A_def)
  from run y demo_labels demo_labels_B demo_loading_A demo_loading_B show ?thesis by simp
qed

text \<open>
  Claim C2, amended: a selection empties both curve sets and stores the new indices,
  and the delivery of an emission that has a colour appends its curve to the curve set
  of its slot, whatever state the model is in: no generation is compared and nothing
  is discarded.
\<close>

theorem delivery_has_no_generation_check:
  "(selection_callback self new = Inr (self', ths) \<longrightarrow>
      g1_iso_sel self' = [] \<and> g2_iso_sel self' = [] \<and> selected self' = new)
   \<and> (c \<noteq> [] \<longrightarrow>
      g1_iso_sel (fst (deliver cur \<lparr>cb_slot = G1, cb_iso = i, cb_color = Some c\<rparr>))
        = g1_iso_sel cur @ [as_curve i c]
      \<and> g2_iso_sel (fst (deliver cur \<lparr>cb_slot = G2, cb_iso = i, cb_color = Some c\<rparr>))
        = g2_iso_sel cur @ [as_curve i c])"
  by (auto simp: deliver_def iso_update_with_color dest: selection_callback_resets)

theorem delivery_has_no_generation_check_witness:
  "\<exists>m. selection_callback demo_model [0] = Inr (m, [(0, ''g1''), (0, ''g2'')])
     \<and> g1_iso_sel m = [] \<and> g2_iso_sel m = [] \<and> selected m = [0]
     \<and> ''k'' \<noteq> []
     \<and> g1_iso_sel (fst (deliver (m\<lparr>selected := [1]\<rparr>)
           \<lparr>cb_slot = G1, cb_iso = demo_median_A, cb_color = Some ''k''\<rparr>))
         = [as_curve demo_median_A ''k'']"
proof -
  from selection_callback_demo obtain m where
    m: "selection_callback demo_model [0] = Inr (m, [(0, ''g1''), (0, ''g2'')])"
    by blast
  from delivery_has_no_generation_check
    [of demo_model "[0]" m "[(0, ''g1''), (0, ''g2'')]" "''k''" "m\<lparr>selected := [1]\<rparr>" demo_median_A]
    m
  have "g1_iso_sel m = [] \<and> g2_iso_sel m = [] \<and> selected m = [0]
     \<and> g1_iso_sel (fst (deliver (m\<lparr>selected := [1]\<rparr>)
           \<lparr>cb_slot = G1, cb_iso = demo_median_A, cb_color = Some ''k''\<rparr>))
         = [as_curve demo_median_A ''k'']"
    by simp
  with m show ?thesis by auto
qed

end
